theory Spec2Isabelle
  imports Complex_Main "HOL-Library.AList"
begin

section \<open>Session coordinator of the quiz server (server.js)\<close>

text \<open>
  A shallow embedding of the coordinator: the module-level variables \<^verbatim>\<open>state\<close> and
  \<^verbatim>\<open>pendingTakeovers\<close> and the transport's table of connected sockets form one record
  that every handler takes and returns, together with the list of messages and store
  calls the handler issues. JavaScript numbers are modelled as exact reals (every clock
  reading of the run clock is an integer number of milliseconds); a value for which
  \<^verbatim>\<open>Number.isFinite\<close> is false is \<open>None\<close>. Array and choice indices are integers.
\<close>

subsection \<open>Scoring\<close>

text \<open>\<^verbatim>\<open>Math.round\<close>: the nearest integer, a half rounded up.\<close>

definition js_round :: "real \<Rightarrow> int" where
  "js_round x = \<lfloor>x + 1 / 2\<rfloor>"

text \<open>
  \<^verbatim>\<open>computeQuestionScore(isCorrect, lockedAtRunMs, timeSec)\<close>. Both numeric arguments
  are tested with \<^verbatim>\<open>Number.isFinite\<close>; \<open>None\<close> stands for a value that fails the test.
\<close>

definition computeQuestionScore :: "bool \<Rightarrow> real option \<Rightarrow> real option \<Rightarrow> real" where
  "computeQuestionScore isCorrect lockedAtRunMs timeSec =
     (if \<not> isCorrect then 0
      else
        let timeSec' = (case timeSec of
                          Some t \<Rightarrow> max 1 (real_of_int (js_round t))
                        | None \<Rightarrow> 20);
            elapsedSec = (case lockedAtRunMs of
                            Some ms \<Rightarrow> ms / 1000
                          | None \<Rightarrow> timeSec');
            maxPoints = 20
        in if elapsedSec \<le> 4 then maxPoints
           else
             let secondsLate = max 0 (real_of_int \<lceil>elapsedSec - 4\<rceil>)
             in max 0 (maxPoints - secondsLate))"

subsection \<open>Data model\<close>

type_synonym sid = string
type_synonym pin = string

text \<open>
  \<^verbatim>\<open>makeGameId\<close> formats a clock reading and a random integer below a million into a
  string; the model keeps the two numbers. A question run identifier is built from the
  game identifier, the question number and a clock reading; the empty string is \<open>None\<close>.
\<close>

type_synonym gameid = "real \<times> int"
type_synonym runid = "gameid \<times> int \<times> real"

datatype game_phase = Lobby | Question | Revealed | Leaderboard | Finished

datatype outcome = Correct | Wrong

text \<open>
  An entry of \<^verbatim>\<open>QUESTION_BANK\<close>. \<open>qTimeSec\<close> is \<open>None\<close> when the field is not a number
  (the loader stores an integer between 5 and 300).
\<close>

record question =
  qId :: string
  qText :: string
  qChoices :: "string list"
  qCorrectIndex :: int
  qTimeSec :: "real option"
  qMediaType :: "string option"
  qMediaUrl :: "string option"

text \<open>An entry of \<^verbatim>\<open>TEAM_REGISTRY\<close>.\<close>

record teamInfo =
  infoPin :: pin
  infoName :: string
  infoAvatarUrl :: string
  infoMembers :: "string list"

text \<open>The team object built by \<^verbatim>\<open>doJoinTeam\<close>; its \<^verbatim>\<open>id\<close> field is \<open>teamId\<close>.\<close>

record team =
  teamId :: sid
  pin :: pin
  name :: string
  avatarUrl :: string
  members :: "string list"
  leaderName :: string
  score :: real
  lockedChoice :: "int option"
  lockedAtRunMs :: "real option"
  lastResult :: "outcome option"
  lastPointsAwarded :: real
  ip :: string
  userAgent :: string
  joinedAt :: real

text \<open>
  The object \<^verbatim>\<open>resetState\<close> returns, without its constant \<^verbatim>\<open>title\<close>. \<open>teams\<close> is a
  JavaScript \<^verbatim>\<open>Map\<close> from socket id to team: an association list in insertion order,
  since the log and sync rows are produced by iterating it.
\<close>

record game_state =
  gameId :: gameid
  phase :: game_phase
  qIndex :: int
  paused :: bool
  manualScoring :: bool
  startedAtMs :: real
  accumulatedRunMs :: real
  timeSec :: real
  shuffleQuestions :: bool
  shuffleChoices :: bool
  gameQuestions :: "question list option"
  teams :: "(sid \<times> team) list"
  claimedPins :: "pin set"
  hostId :: "sid option"
  projectorIds :: "sid set"
  questionLogged :: bool
  questionRunId :: "runid option"

text \<open>A value of \<^verbatim>\<open>pendingTakeovers\<close>.\<close>

record takeover =
  requesterId :: sid
  requestedAt :: real
  reqIp :: string
  reqUserAgent :: string

text \<open>
  The whole server: \<^verbatim>\<open>state\<close>, \<^verbatim>\<open>pendingTakeovers\<close>, and the ids of the connected
  sockets (\<^verbatim>\<open>io.sockets.sockets\<close>, kept by the transport).
\<close>

record server =
  state :: game_state
  pendingTakeovers :: "pin \<rightharpoonup> takeover"
  sockets :: "sid set"

text \<open>The data loaded once at boot.\<close>

record config =
  TEAM_REGISTRY :: "teamInfo list"
  QUESTION_BANK :: "question list"

text \<open>
  A value a client can send as an event argument: \<^verbatim>\<open>undefined\<close> (no argument),
  \<^verbatim>\<open>null\<close>, a boolean, a number, a string, an array, an object with its properties, or a
  binary attachment with its bytes.
\<close>

datatype jsval =
    JUndefined
  | JNull
  | JBool bool
  | JNum real
  | JStr string
  | JArr "jsval list"
  | JObj "(string \<times> jsval) list"
  | JBytes string

text \<open>
  What a handler reads from outside the program while it runs: the clock
  (\<^verbatim>\<open>Date.now()\<close>, one reading per handler run), the successive results of
  \<^verbatim>\<open>Math.random()\<close> (each in \<open>[0, 1)\<close>), and the handshake data that
  \<^verbatim>\<open>getClientIp\<close> and \<^verbatim>\<open>getUserAgent\<close> extract for a socket.

  The last field is the language's own conversion to a number of a value that is a
  string, an array, an object or a byte buffer (the value's string form, parsed as a
  numeric literal and rounded to a double). It is not code of the program and is taken
  as given: \<open>None\<close> when the result is \<^verbatim>\<open>NaN\<close> or infinite or the conversion throws.
  Every theorem holds for every such function.
\<close>

record env =
  now :: real
  random :: "nat \<Rightarrow> real"
  getClientIp :: "sid \<Rightarrow> string"
  getUserAgent :: "sid \<Rightarrow> string"
  toNumberBuiltin :: "jsval \<Rightarrow> real option"

text \<open>
  Messages to clients and calls to the sheet store, in the order the handler issues
  them. The \<^verbatim>\<open>state\<close> and \<^verbatim>\<open>hostState\<close> messages carry projections of the current state,
  which are not modelled. A row of the answer log keeps the values it is formatted from.
\<close>

datatype message =
    MState
  | MHostState
  | MJoined sid string string
  | MJoinError string
  | MTakeoverRequested pin
  | MTakeoverPending pin sid
  | MTakeoverApproved
  | MTakeoverDenied
  | MKicked
  | MHostError string

record answerRow =
  rowPin :: pin
  rowName :: string
  rowAnswer :: "int option"
  rowIsCorrect :: bool
  rowTimeMs :: "int option"
  rowPoints :: real
  rowScore :: real

datatype effect =
    Emit sid message
  | EmitAll message
  | AppendQuestionRow gameid runid int question
  | AppendAnswerRows gameid "runid option" int "answerRow list"
  | UpdateScores "(pin \<times> real) list"

subsection \<open>Helpers\<close>

text \<open>
  \<^verbatim>\<open>String.prototype.trim\<close>. A character of this string type is a code unit below 256,
  so the white space stripped is the six ASCII blanks and the no-break space U+00A0; the
  wider Unicode spaces that the language also strips cannot occur in such a string.
\<close>

definition is_space :: "char \<Rightarrow> bool" where
  "is_space c =
     (c \<in> set [CHR '' '', CHR 0x09, CHR 0x0A, CHR 0x0B, CHR 0x0C, CHR 0x0D, CHR 0xA0])"

definition trim :: "string \<Rightarrow> string" where
  "trim s = rev (dropWhile is_space (rev (dropWhile is_space s)))"

text \<open>
  \<^verbatim>\<open>Number(v)\<close>: \<^verbatim>\<open>undefined\<close> gives \<^verbatim>\<open>NaN\<close>, \<^verbatim>\<open>null\<close> gives 0, \<^verbatim>\<open>false\<close> and \<^verbatim>\<open>true\<close> give
  0 and 1, a number is left as it is, and every other value goes through the
  language's conversion. \<open>None\<close> is a result that is not a finite number.
\<close>

definition Number :: "env \<Rightarrow> jsval \<Rightarrow> real option" where
  "Number e v =
     (case v of
        JUndefined \<Rightarrow> None
      | JNull \<Rightarrow> Some 0
      | JBool b \<Rightarrow> Some (if b then 1 else 0)
      | JNum r \<Rightarrow> Some r
      | _ \<Rightarrow> toNumberBuiltin e v)"

text \<open>
  \<^verbatim>\<open>shuffleArray\<close>: the loop runs \<open>i\<close> from the last index down to 1 and swaps position
  \<open>i\<close> with position \<open>\<lfloor>random * (i + 1)\<rfloor>\<close>. \<open>k\<close> counts the random draws made so
  far; the function returns the next count with the array.
\<close>

fun shuffleLoop :: "(nat \<Rightarrow> real) \<Rightarrow> nat \<Rightarrow> nat \<Rightarrow> 'a list \<Rightarrow> 'a list" where
  "shuffleLoop rnd k 0 arr = arr"
| "shuffleLoop rnd k (Suc i') arr =
     (let i = Suc i';
          j = nat \<lfloor>rnd k * real (i + 1)\<rfloor>
      in shuffleLoop rnd (Suc k) i' (arr[i := arr ! j, j := arr ! i]))"

definition shuffleArray :: "(nat \<Rightarrow> real) \<Rightarrow> nat \<Rightarrow> 'a list \<Rightarrow> 'a list \<times> nat" where
  "shuffleArray rnd k arr =
     (shuffleLoop rnd k (length arr - 1) arr, k + (length arr - 1))"

text \<open>\<^verbatim>\<open>Array.prototype.findIndex\<close>: the first position that satisfies \<open>P\<close>, or \<open>-1\<close>.\<close>

fun findIndex :: "('a \<Rightarrow> bool) \<Rightarrow> 'a list \<Rightarrow> int" where
  "findIndex P [] = - 1"
| "findIndex P (x # xs) =
     (if P x then 0
      else let r = findIndex P xs in if r < 0 then - 1 else r + 1)"

definition shuffleChoicesForQuestion ::
  "(nat \<Rightarrow> real) \<Rightarrow> nat \<Rightarrow> question \<Rightarrow> question \<times> nat" where
  "shuffleChoicesForQuestion rnd k q =
     (let pairs = zip (qChoices q) [0..<length (qChoices q)];
          (pairs', k') = shuffleArray rnd k pairs
      in (q\<lparr>qChoices := map fst pairs',
            qCorrectIndex := findIndex (\<lambda>p. int (snd p) = qCorrectIndex q) pairs'\<rparr>,
          k'))"

text \<open>The \<^verbatim>\<open>map\<close> of \<^verbatim>\<open>shuffleChoicesForQuestion\<close> over the question list, in order.\<close>

fun shuffleChoicesAll ::
  "(nat \<Rightarrow> real) \<Rightarrow> nat \<Rightarrow> question list \<Rightarrow> question list \<times> nat" where
  "shuffleChoicesAll rnd k [] = ([], k)"
| "shuffleChoicesAll rnd k (q # qs) =
     (let (q', k') = shuffleChoicesForQuestion rnd k q;
          (qs', k'') = shuffleChoicesAll rnd k' qs
      in (q' # qs', k''))"

definition buildGameQuestions ::
  "(nat \<Rightarrow> real) \<Rightarrow> question list \<Rightarrow> bool \<Rightarrow> bool \<Rightarrow> question list" where
  "buildGameQuestions rnd bank shuffleQs shuffleCs =
     (let (qlist, k) = (if shuffleCs then shuffleChoicesAll rnd 0 bank else (bank, 0))
      in if shuffleQs then fst (shuffleArray rnd k qlist) else qlist)"

subsection \<open>State\<close>

definition makeGameId :: "env \<Rightarrow> gameid" where
  "makeGameId e = (now e, \<lfloor>random e 0 * 1000000\<rfloor>)"

definition resetState :: "env \<Rightarrow> game_state" where
  "resetState e =
     \<lparr>gameId = makeGameId e,
      phase = Lobby,
      qIndex = - 1,
      paused = True,
      manualScoring = False,
      startedAtMs = 0,
      accumulatedRunMs = 0,
      timeSec = 20,
      shuffleQuestions = True,
      shuffleChoices = True,
      gameQuestions = None,
      teams = [],
      claimedPins = {},
      hostId = None,
      projectorIds = {},
      questionLogged = False,
      questionRunId = None\<rparr>"

text \<open>
  \<^verbatim>\<open>getCurrentQuestionObj\<close>: \<open>None\<close> is a falsy result, \<^verbatim>\<open>null\<close> or the \<^verbatim>\<open>undefined\<close> of a
  read past the end of the array.
\<close>

definition getCurrentQuestionObj :: "game_state \<Rightarrow> question option" where
  "getCurrentQuestionObj s =
     (case gameQuestions s of
        None \<Rightarrow> None
      | Some qs \<Rightarrow>
          if 0 \<le> qIndex s then
            (if qIndex s < int (length qs) then Some (qs ! nat (qIndex s)) else None)
          else None)"

definition getRunElapsedMs :: "game_state \<Rightarrow> real \<Rightarrow> real" where
  "getRunElapsedMs s t =
     (if phase s \<noteq> Question then accumulatedRunMs s
      else if paused s then accumulatedRunMs s
      else accumulatedRunMs s + (t - startedAtMs s))"

definition getRemainingSec :: "game_state \<Rightarrow> real \<Rightarrow> int option" where
  "getRemainingSec s t =
     (if phase s \<noteq> Question then None
      else
        let elapsed = getRunElapsedMs s t / 1000
        in Some (max 0 \<lceil>timeSec s - elapsed\<rceil>))"

definition isHost :: "game_state \<Rightarrow> sid \<Rightarrow> bool" where
  "isHost s sock = (hostId s = Some sock)"

definition broadcast :: "server \<Rightarrow> effect list" where
  "broadcast srv =
     EmitAll MState #
     (case hostId (state srv) of
        Some h \<Rightarrow> [Emit h MHostState]
      | None \<Rightarrow> [])"

definition makeQuestionRunId :: "env \<Rightarrow> game_state \<Rightarrow> runid" where
  "makeQuestionRunId e s = (gameId s, qIndex s + 1, now e)"

subsection \<open>Sheet writes\<close>

text \<open>
  Each of the three functions is asynchronous; up to its call of the store it runs at
  once, so the state change and the call belong to the handler that invoked it.
\<close>

definition logQuestionIfNeeded :: "env \<Rightarrow> game_state \<Rightarrow> game_state \<times> effect list" where
  "logQuestionIfNeeded e s =
     (if phase s \<noteq> Question then (s, [])
      else if questionLogged s then (s, [])
      else
        case getCurrentQuestionObj s of
          None \<Rightarrow> (s, [])
        | Some q \<Rightarrow>
            let s' = s\<lparr>questionLogged := True,
                       questionRunId := Some (makeQuestionRunId e s)\<rparr>
            in (s', [AppendQuestionRow (gameId s') (makeQuestionRunId e s) (qIndex s' + 1) q]))"

definition answerRowOf :: "question \<Rightarrow> team \<Rightarrow> answerRow" where
  "answerRowOf q t =
     \<lparr>rowPin = pin t,
      rowName = name t,
      rowAnswer = lockedChoice t,
      rowIsCorrect = (lockedChoice t = Some (qCorrectIndex q)),
      rowTimeMs = map_option js_round (lockedAtRunMs t),
      rowPoints = lastPointsAwarded t,
      rowScore = score t\<rparr>"

definition logAnswersNow :: "game_state \<Rightarrow> effect list" where
  "logAnswersNow s =
     (case getCurrentQuestionObj s of
        None \<Rightarrow> []
      | Some q \<Rightarrow>
          [AppendAnswerRows (gameId s) (questionRunId s) (qIndex s + 1)
             (map (\<lambda>(k, t). answerRowOf q t) (teams s))])"

text \<open>
  \<^verbatim>\<open>syncTotalsToTeamsSheet\<close> fills an object by the assignments
  \<^verbatim>\<open>pinToScore[t.pin] = t.score\<close>, one per team in iteration order, and passes it to the
  store. The effect carries that sequence of assignments, which determines the object (a
  later assignment to the same code replaces an earlier one).
\<close>

definition syncTotalsToTeamsSheet :: "game_state \<Rightarrow> effect list" where
  "syncTotalsToTeamsSheet s = [UpdateScores (map (\<lambda>(k, t). (pin t, score t)) (teams s))]"

subsection \<open>Game flow\<close>

text \<open>The answer fields \<^verbatim>\<open>startQuestion\<close> resets on every team.\<close>

definition clearAnswer :: "team \<Rightarrow> team" where
  "clearAnswer t =
     t\<lparr>lockedChoice := None, lockedAtRunMs := None, lastResult := None,
       lastPointsAwarded := 0\<rparr>"

definition startQuestion :: "int \<Rightarrow> game_state \<Rightarrow> game_state" where
  "startQuestion index s =
     (let s1 = s\<lparr>phase := Question, qIndex := index, paused := True,
                 accumulatedRunMs := 0, startedAtMs := 0,
                 questionLogged := False, questionRunId := None\<rparr>;
          s2 = s1\<lparr>timeSec :=
                     (case getCurrentQuestionObj s1 of
                        Some q \<Rightarrow> (case qTimeSec q of Some n \<Rightarrow> n | None \<Rightarrow> 20)
                      | None \<Rightarrow> 20)\<rparr>
      in s2\<lparr>teams := map (\<lambda>(k, t). (k, clearAnswer t)) (teams s2)\<rparr>)"

definition resume :: "env \<Rightarrow> game_state \<Rightarrow> game_state \<times> effect list" where
  "resume e s =
     (if phase s \<noteq> Question \<or> \<not> paused s then (s, [])
      else
        let (s1, logged) = logQuestionIfNeeded e s
        in (s1\<lparr>paused := False, startedAtMs := now e\<rparr>, logged))"

definition pause :: "env \<Rightarrow> game_state \<Rightarrow> game_state" where
  "pause e s =
     (if phase s \<noteq> Question \<or> paused s then s
      else s\<lparr>accumulatedRunMs := accumulatedRunMs s + (now e - startedAtMs s),
             startedAtMs := 0,
             paused := True\<rparr>)"

text \<open>The body of the scoring loop of \<^verbatim>\<open>revealAnswer\<close>, for one team.\<close>

definition scoreTeam :: "int \<Rightarrow> real \<Rightarrow> team \<Rightarrow> team" where
  "scoreTeam correct budget t0 =
     (let t = t0\<lparr>lastPointsAwarded := 0\<rparr>
      in case (lockedChoice t, lockedAtRunMs t) of
           (Some c, Some ms) \<Rightarrow>
             let isCorrect = (c = correct);
                 gained = computeQuestionScore isCorrect (Some ms) (Some budget)
             in t\<lparr>lastResult := Some (if isCorrect then Correct else Wrong),
                  lastPointsAwarded := gained,
                  score := score t + gained\<rparr>
         | _ \<Rightarrow> t\<lparr>lastResult := Some Wrong\<rparr>)"

definition revealAnswer :: "env \<Rightarrow> game_state \<Rightarrow> game_state \<times> effect list" where
  "revealAnswer e s0 =
     (if phase s0 \<noteq> Question then (s0, [])
      else
        let s1 = (if \<not> paused s0 \<and> startedAtMs s0 \<noteq> 0
                  then s0\<lparr>accumulatedRunMs := accumulatedRunMs s0 + (now e - startedAtMs s0),
                          startedAtMs := 0\<rparr>
                  else s0);
            s2 = s1\<lparr>paused := True, phase := Revealed\<rparr>
        in case getCurrentQuestionObj s2 of
             None \<Rightarrow> (s2, [])
           | Some q \<Rightarrow>
               let (s3, logged) = logQuestionIfNeeded e s2
               in if manualScoring s3 then
                    let s4 = s3\<lparr>teams :=
                                  map (\<lambda>(k, t). (k, t\<lparr>lastResult := None,
                                                       lastPointsAwarded := 0\<rparr>))
                                      (teams s3)\<rparr>
                    in (s4, logged @ logAnswersNow s4 @ syncTotalsToTeamsSheet s4)
                  else
                    let correct = qCorrectIndex q;
                        s4 = s3\<lparr>teams :=
                                  map (\<lambda>(k, t). (k, scoreTeam correct (timeSec s3) t))
                                      (teams s3)\<rparr>
                    in (s4, logged
                              @ syncTotalsToTeamsSheet s4 @ logAnswersNow s4
                              @ syncTotalsToTeamsSheet s4 @ logAnswersNow s4))"

definition showLeaderboard :: "game_state \<Rightarrow> game_state" where
  "showLeaderboard s =
     (if phase s \<noteq> Revealed then s else s\<lparr>phase := Leaderboard, paused := True\<rparr>)"

definition nextQuestion :: "game_state \<Rightarrow> game_state" where
  "nextQuestion s =
     (let total = (case gameQuestions s of Some qs \<Rightarrow> int (length qs) | None \<Rightarrow> 0)
      in if total - 1 \<le> qIndex s then s\<lparr>phase := Finished, paused := True\<rparr>
         else startQuestion (qIndex s + 1) s)"

text \<open>The callback of \<^verbatim>\<open>setInterval\<close>: auto-reveal when the timer hits 0.\<close>

definition tick :: "env \<Rightarrow> server \<Rightarrow> server \<times> effect list" where
  "tick e srv =
     (let s = state srv
      in if phase s \<noteq> Question then (srv, [])
         else if paused s then (srv, [])
         else
           case getRemainingSec s (now e) of
             None \<Rightarrow> (srv, [])
           | Some rem \<Rightarrow>
               if rem \<le> 0 then
                 let (s', out) = revealAnswer e s;
                     srv' = srv\<lparr>state := s'\<rparr>
                 in (srv', out @ broadcast srv')
               else (srv, []))"

subsection \<open>Team join and takeover\<close>

definition findTeamByPin :: "game_state \<Rightarrow> string \<Rightarrow> team option" where
  "findTeamByPin s p0 = (let p = trim p0 in find (\<lambda>t. pin t = p) (map snd (teams s)))"

text \<open>
  \<^verbatim>\<open>clearPendingTakeoverForPin(pin, requesterId = null)\<close>; the optional second argument
  is \<open>None\<close> when it is omitted.
\<close>

definition clearPendingTakeoverForPin ::
  "string \<Rightarrow> sid option \<Rightarrow> (pin \<rightharpoonup> takeover) \<Rightarrow> (pin \<rightharpoonup> takeover)" where
  "clearPendingTakeoverForPin p0 requester pend =
     (let p = trim p0
      in case pend p of
           None \<Rightarrow> pend
         | Some cur \<Rightarrow>
             (case requester of
                Some r \<Rightarrow> if requesterId cur \<noteq> r then pend else pend(p := None)
              | None \<Rightarrow> pend(p := None)))"

definition newTeam :: "env \<Rightarrow> sid \<Rightarrow> pin \<Rightarrow> teamInfo \<Rightarrow> team" where
  "newTeam e sock enteredPin info =
     \<lparr>teamId = sock,
      pin = enteredPin,
      name = infoName info,
      avatarUrl = infoAvatarUrl info,
      members = infoMembers info,
      leaderName = (case infoMembers info of [] \<Rightarrow> [] | m # _ \<Rightarrow> m),
      score = 0,
      lockedChoice = None,
      lockedAtRunMs = None,
      lastResult = None,
      lastPointsAwarded = 0,
      ip = getClientIp e sock,
      userAgent = getUserAgent e sock,
      joinedAt = now e\<rparr>"

definition doJoinTeam :: "env \<Rightarrow> server \<Rightarrow> sid \<Rightarrow> pin \<Rightarrow> teamInfo \<Rightarrow> server \<times> effect list" where
  "doJoinTeam e srv sock enteredPin info =
     (let t = newTeam e sock enteredPin info;
          s = state srv;
          srv' = srv\<lparr>state := s\<lparr>claimedPins := insert enteredPin (claimedPins s),
                                 teams := AList.update sock t (teams s)\<rparr>\<rparr>
      in (srv', Emit sock (MJoined (teamId t) (name t) (avatarUrl t)) # broadcast srv'))"

text \<open>The \<^verbatim>\<open>disconnect\<close> handler of a socket.\<close>

definition onDisconnect :: "server \<Rightarrow> sid \<Rightarrow> server \<times> effect list" where
  "onDisconnect srv sock =
     (let s0 = state srv;
          s1 = (if hostId s0 = Some sock then s0\<lparr>hostId := None\<rparr> else s0);
          s2 = s1\<lparr>projectorIds := projectorIds s1 - {sock}\<rparr>;
          (s3, pend3) =
            (case map_of (teams s2) sock of
               Some t \<Rightarrow>
                 (s2\<lparr>claimedPins := claimedPins s2 - {pin t},
                     teams := AList.delete sock (teams s2)\<rparr>,
                  clearPendingTakeoverForPin (pin t) None (pendingTakeovers srv))
             | None \<Rightarrow> (s2, pendingTakeovers srv));
          pend4 = (\<lambda>p. case pend3 p of
                          Some req \<Rightarrow> if requesterId req = sock then None else Some req
                        | None \<Rightarrow> None);
          srv' = srv\<lparr>state := s3, pendingTakeovers := pend4\<rparr>
      in (srv', broadcast srv'))"

text \<open>
  The transport closing a socket, on the client's side or through
  \<^verbatim>\<open>socket.disconnect(true)\<close>: the socket leaves the table of connected sockets and its
  \<^verbatim>\<open>disconnect\<close> handler runs before the call returns.
\<close>

definition closeSocket :: "server \<Rightarrow> sid \<Rightarrow> server \<times> effect list" where
  "closeSocket srv sock = onDisconnect (srv\<lparr>sockets := sockets srv - {sock}\<rparr>) sock"

definition kickTeamSocket :: "server \<Rightarrow> team option \<Rightarrow> server \<times> effect list" where
  "kickTeamSocket srv target =
     (case target of
        None \<Rightarrow> (srv, [])
      | Some t \<Rightarrow>
          let (srv1, out) =
                (if teamId t \<in> sockets srv
                 then (let (srv0, out0) = closeSocket srv (teamId t)
                       in (srv0, Emit (teamId t) MKicked # out0))
                 else (srv, []));
              s = state srv1
          in (srv1\<lparr>state := s\<lparr>claimedPins := claimedPins s - {pin t},
                                teams := AList.delete (teamId t) (teams s)\<rparr>\<rparr>,
              out))"

subsection \<open>Socket handlers\<close>

text \<open>
  Each handler takes the id of the socket the event arrived on and the event's payload.
  A team code or team id is a string (the empty string when absent), the argument of
  \<^verbatim>\<open>lockAnswer\<close> is any value a client can send, a score delta is \<open>None\<close> when
  \<^verbatim>\<open>Number(delta)\<close> is not finite (scores add exactly, where the code adds doubles), and
  a shuffle flag is \<open>None\<close> when it is not a boolean.
\<close>

definition onConnection :: "server \<Rightarrow> sid \<Rightarrow> server \<times> effect list" where
  "onConnection srv sock = (srv\<lparr>sockets := insert sock (sockets srv)\<rparr>, [Emit sock MState])"

definition registerHost :: "server \<Rightarrow> sid \<Rightarrow> server \<times> effect list" where
  "registerHost srv sock =
     (srv\<lparr>state := (state srv)\<lparr>hostId := Some sock\<rparr>\<rparr>,
      [Emit sock MState, Emit sock MHostState])"

definition registerProjector :: "server \<Rightarrow> sid \<Rightarrow> server \<times> effect list" where
  "registerProjector srv sock =
     (srv\<lparr>state := (state srv)\<lparr>projectorIds := insert sock (projectorIds (state srv))\<rparr>\<rparr>,
      [Emit sock MState])"

definition joinTeam :: "config \<Rightarrow> env \<Rightarrow> server \<Rightarrow> sid \<Rightarrow> string \<Rightarrow> server \<times> effect list" where
  "joinTeam cfg e srv sock pin0 =
     (let entered = trim pin0
      in case find (\<lambda>t. infoPin t = entered) (TEAM_REGISTRY cfg) of
           None \<Rightarrow> (srv, [Emit sock (MJoinError ''Invalid team code.'')])
         | Some info \<Rightarrow>
             if map_of (teams (state srv)) sock \<noteq> None
             then (srv, [Emit sock (MJoinError ''This device is already joined.'')])
             else if entered \<in> claimedPins (state srv) then
               let req = \<lparr>requesterId = sock, requestedAt = now e,
                          reqIp = getClientIp e sock, reqUserAgent = getUserAgent e sock\<rparr>;
                   srv' = srv\<lparr>pendingTakeovers := (pendingTakeovers srv)(entered \<mapsto> req)\<rparr>
               in (srv',
                   Emit sock (MTakeoverRequested entered) #
                   (case hostId (state srv') of
                      Some h \<Rightarrow> [Emit h (MTakeoverPending entered sock), Emit h MHostState]
                    | None \<Rightarrow> []))
             else doJoinTeam e srv sock entered info)"

definition hostKickTeam :: "server \<Rightarrow> sid \<Rightarrow> string \<Rightarrow> string \<Rightarrow> server \<times> effect list" where
  "hostKickTeam srv sock teamId0 pin0 =
     (if \<not> isHost (state srv) sock then (srv, [])
      else
        let target = (if teamId0 \<noteq> [] then map_of (teams (state srv)) teamId0
                      else if pin0 \<noteq> [] then findTeamByPin (state srv) pin0
                      else None)
        in case target of
             None \<Rightarrow> (srv, [])
           | Some t \<Rightarrow>
               let srv1 = srv\<lparr>pendingTakeovers :=
                                clearPendingTakeoverForPin (pin t) None (pendingTakeovers srv)\<rparr>;
                   (srv2, out) = kickTeamSocket srv1 (Some t)
               in (srv2, out @ broadcast srv2))"

definition hostApproveTakeover ::
  "config \<Rightarrow> env \<Rightarrow> server \<Rightarrow> sid \<Rightarrow> string \<Rightarrow> server \<times> effect list" where
  "hostApproveTakeover cfg e srv sock pin0 =
     (if \<not> isHost (state srv) sock then (srv, [])
      else
        let p = trim pin0
        in case pendingTakeovers srv p of
             None \<Rightarrow> (srv, [])
           | Some req \<Rightarrow>
               let requesterConnected = (requesterId req \<in> sockets srv);
                   (srv1, out1) =
                     (case findTeamByPin (state srv) p of
                        Some cur \<Rightarrow> kickTeamSocket srv (Some cur)
                      | None \<Rightarrow>
                          (srv\<lparr>state := (state srv)\<lparr>claimedPins :=
                                                       claimedPins (state srv) - {p}\<rparr>\<rparr>, []))
               in if requesterConnected then
                    (case find (\<lambda>t. infoPin t = p) (TEAM_REGISTRY cfg) of
                       None \<Rightarrow>
                         let srv2 = srv1\<lparr>pendingTakeovers := (pendingTakeovers srv1)(p := None)\<rparr>
                         in (srv2,
                             out1 @ [Emit (requesterId req) (MJoinError ''Invalid team code.'')]
                                  @ broadcast srv2)
                     | Some info \<Rightarrow>
                         let srv2 = srv1\<lparr>state := (state srv1)\<lparr>claimedPins :=
                                                          claimedPins (state srv1) - {p}\<rparr>\<rparr>;
                             (srv3, out3) = doJoinTeam e srv2 (requesterId req) p info;
                             srv4 = srv3\<lparr>pendingTakeovers := (pendingTakeovers srv3)(p := None)\<rparr>
                         in (srv4,
                             out1 @ out3 @ [Emit (requesterId req) MTakeoverApproved]
                                  @ broadcast srv4))
                  else
                    let srv2 = srv1\<lparr>pendingTakeovers := (pendingTakeovers srv1)(p := None)\<rparr>
                    in (srv2, out1 @ broadcast srv2))"

definition hostDenyTakeover :: "server \<Rightarrow> sid \<Rightarrow> string \<Rightarrow> server \<times> effect list" where
  "hostDenyTakeover srv sock pin0 =
     (if \<not> isHost (state srv) sock then (srv, [])
      else
        let p = trim pin0
        in case pendingTakeovers srv p of
             None \<Rightarrow> (srv, [])
           | Some req \<Rightarrow>
               let srv' = srv\<lparr>pendingTakeovers := (pendingTakeovers srv)(p := None)\<rparr>
               in (srv',
                   (if requesterId req \<in> sockets srv
                    then [Emit (requesterId req) MTakeoverDenied] else [])
                   @ broadcast srv'))"

text \<open>
  \<^verbatim>\<open>lockAnswer\<close> converts its argument with \<^verbatim>\<open>Number\<close> and tests the result with
  \<^verbatim>\<open>[0, 1, 2, 3].includes\<close>. The index it stores is then one of these four integers,
  kept as an integer.
\<close>

definition lockAnswer :: "env \<Rightarrow> server \<Rightarrow> sid \<Rightarrow> jsval \<Rightarrow> server \<times> effect list" where
  "lockAnswer e srv sock choiceIndex =
     (let s = state srv
      in case map_of (teams s) sock of
           None \<Rightarrow> (srv, [])
         | Some t \<Rightarrow>
             if phase s \<noteq> Question then (srv, [])
             else if paused s then (srv, [])
             else if lockedChoice t \<noteq> None then (srv, [])
             else
               case Number e choiceIndex of
                 None \<Rightarrow> (srv, [])
               | Some idx \<Rightarrow>
                   if idx \<notin> set [0, 1, 2, 3] then (srv, [])
                   else
                     let t' = t\<lparr>lockedChoice := Some \<lfloor>idx\<rfloor>,
                                lockedAtRunMs := Some (getRunElapsedMs s (now e))\<rparr>;
                         srv' = srv\<lparr>state := s\<lparr>teams := AList.update sock t' (teams s)\<rparr>\<rparr>
                     in (srv', broadcast srv'))"

definition hostReset :: "env \<Rightarrow> server \<Rightarrow> sid \<Rightarrow> server \<times> effect list" where
  "hostReset e srv sock =
     (if \<not> isHost (state srv) sock then (srv, [])
      else
        let srv' = srv\<lparr>state := resetState e, pendingTakeovers := Map.empty\<rparr>
        in (srv', broadcast srv'))"

definition hostSetShuffle ::
  "server \<Rightarrow> sid \<Rightarrow> bool option \<Rightarrow> bool option \<Rightarrow> server \<times> effect list" where
  "hostSetShuffle srv sock shuffleQs shuffleCs =
     (if \<not> isHost (state srv) sock then (srv, [])
      else
        let s = state srv;
            s1 = (case shuffleQs of Some b \<Rightarrow> s\<lparr>shuffleQuestions := b\<rparr> | None \<Rightarrow> s);
            s2 = (case shuffleCs of Some b \<Rightarrow> s1\<lparr>shuffleChoices := b\<rparr> | None \<Rightarrow> s1);
            srv' = srv\<lparr>state := s2\<rparr>
        in (srv', broadcast srv'))"

definition hostSetManualScoring :: "server \<Rightarrow> sid \<Rightarrow> bool \<Rightarrow> server \<times> effect list" where
  "hostSetManualScoring srv sock val =
     (if \<not> isHost (state srv) sock then (srv, [])
      else
        let srv' = srv\<lparr>state := (state srv)\<lparr>manualScoring := val\<rparr>\<rparr>
        in (srv', broadcast srv'))"

definition hostAdjustScore ::
  "server \<Rightarrow> sid \<Rightarrow> sid \<Rightarrow> real option \<Rightarrow> server \<times> effect list" where
  "hostAdjustScore srv sock teamId0 delta =
     (if \<not> isHost (state srv) sock then (srv, [])
      else
        case map_of (teams (state srv)) teamId0 of
          None \<Rightarrow> (srv, [])
        | Some t \<Rightarrow>
            (case delta of
               None \<Rightarrow> (srv, [])
             | Some d \<Rightarrow>
                 let s = state srv;
                     srv' = srv\<lparr>state := s\<lparr>teams :=
                                              AList.update teamId0 (t\<lparr>score := score t + d\<rparr>)
                                                (teams s)\<rparr>\<rparr>
                 in (srv', broadcast srv' @ syncTotalsToTeamsSheet (state srv'))))"

definition hostStart :: "config \<Rightarrow> env \<Rightarrow> server \<Rightarrow> sid \<Rightarrow> server \<times> effect list" where
  "hostStart cfg e srv sock =
     (if \<not> isHost (state srv) sock then (srv, [])
      else if QUESTION_BANK cfg = [] then
        (srv, [Emit sock (MHostError ''No questions loaded from the Questions sheet.'')])
      else
        let s = state srv;
            s1 = s\<lparr>gameQuestions :=
                     Some (buildGameQuestions (random e) (QUESTION_BANK cfg)
                             (shuffleQuestions s) (shuffleChoices s))\<rparr>;
            srv' = srv\<lparr>state := startQuestion 0 s1\<rparr>
        in (srv', broadcast srv'))"

definition hostPauseToggle :: "env \<Rightarrow> server \<Rightarrow> sid \<Rightarrow> server \<times> effect list" where
  "hostPauseToggle e srv sock =
     (if \<not> isHost (state srv) sock then (srv, [])
      else if phase (state srv) \<noteq> Question then (srv, [])
      else
        let (s', out) = (if paused (state srv) then resume e (state srv)
                         else (pause e (state srv), []));
            srv' = srv\<lparr>state := s'\<rparr>
        in (srv', out @ broadcast srv'))"

definition hostReveal :: "env \<Rightarrow> server \<Rightarrow> sid \<Rightarrow> server \<times> effect list" where
  "hostReveal e srv sock =
     (if \<not> isHost (state srv) sock then (srv, [])
      else if phase (state srv) \<noteq> Question then (srv, [])
      else
        let (s', out) = revealAnswer e (state srv);
            srv' = srv\<lparr>state := s'\<rparr>
        in (srv', out @ broadcast srv'))"

definition hostNext :: "server \<Rightarrow> sid \<Rightarrow> server \<times> effect list" where
  "hostNext srv sock =
     (if \<not> isHost (state srv) sock then (srv, [])
      else if phase (state srv) = Revealed then
        let srv' = srv\<lparr>state := showLeaderboard (state srv)\<rparr>
        in (srv', broadcast srv')
      else if phase (state srv) = Leaderboard then
        let srv' = srv\<lparr>state := nextQuestion (state srv)\<rparr>
        in (srv', broadcast srv')
      else (srv, []))"

subsection \<open>Events and runs\<close>

datatype event =
    Connection sid
  | RegisterHost sid
  | RegisterProjector sid
  | JoinTeam sid string
  | HostKickTeam sid string string
  | HostApproveTakeover sid string
  | HostDenyTakeover sid string
  | LockAnswer sid jsval
  | HostReset sid
  | HostSetShuffle sid "bool option" "bool option"
  | HostSetManualScoring sid bool
  | HostAdjustScore sid sid "real option"
  | HostStart sid
  | HostPauseToggle sid
  | HostReveal sid
  | HostNext sid
  | Disconnect sid
  | Tick

fun step :: "config \<Rightarrow> server \<Rightarrow> env \<times> event \<Rightarrow> server \<times> effect list" where
  "step cfg srv (e, Connection sock) = onConnection srv sock"
| "step cfg srv (e, RegisterHost sock) = registerHost srv sock"
| "step cfg srv (e, RegisterProjector sock) = registerProjector srv sock"
| "step cfg srv (e, JoinTeam sock p) = joinTeam cfg e srv sock p"
| "step cfg srv (e, HostKickTeam sock tid p) = hostKickTeam srv sock tid p"
| "step cfg srv (e, HostApproveTakeover sock p) = hostApproveTakeover cfg e srv sock p"
| "step cfg srv (e, HostDenyTakeover sock p) = hostDenyTakeover srv sock p"
| "step cfg srv (e, LockAnswer sock c) = lockAnswer e srv sock c"
| "step cfg srv (e, HostReset sock) = hostReset e srv sock"
| "step cfg srv (e, HostSetShuffle sock a b) = hostSetShuffle srv sock a b"
| "step cfg srv (e, HostSetManualScoring sock v) = hostSetManualScoring srv sock v"
| "step cfg srv (e, HostAdjustScore sock tid d) = hostAdjustScore srv sock tid d"
| "step cfg srv (e, HostStart sock) = hostStart cfg e srv sock"
| "step cfg srv (e, HostPauseToggle sock) = hostPauseToggle e srv sock"
| "step cfg srv (e, HostReveal sock) = hostReveal e srv sock"
| "step cfg srv (e, HostNext sock) = hostNext srv sock"
| "step cfg srv (e, Disconnect sock) = closeSocket srv sock"
| "step cfg srv (e, Tick) = tick e srv"

text \<open>
  The socket of an event whose handler begins with \<^verbatim>\<open>if (!isHost(socket)) return;\<close>,
  and \<open>None\<close> for every other event.
\<close>

fun hostCommandSocket :: "event \<Rightarrow> sid option" where
  "hostCommandSocket (HostKickTeam sock tid p) = Some sock"
| "hostCommandSocket (HostApproveTakeover sock p) = Some sock"
| "hostCommandSocket (HostDenyTakeover sock p) = Some sock"
| "hostCommandSocket (HostReset sock) = Some sock"
| "hostCommandSocket (HostSetShuffle sock a b) = Some sock"
| "hostCommandSocket (HostSetManualScoring sock v) = Some sock"
| "hostCommandSocket (HostAdjustScore sock tid d) = Some sock"
| "hostCommandSocket (HostStart sock) = Some sock"
| "hostCommandSocket (HostPauseToggle sock) = Some sock"
| "hostCommandSocket (HostReveal sock) = Some sock"
| "hostCommandSocket (HostNext sock) = Some sock"
| "hostCommandSocket _ = None"

text \<open>The server after a sequence of events, each with the environment it ran in.\<close>

fun run :: "config \<Rightarrow> server \<Rightarrow> (env \<times> event) list \<Rightarrow> server" where
  "run cfg srv [] = srv"
| "run cfg srv (x # xs) = run cfg (fst (step cfg srv x)) xs"

text \<open>The server at boot: a fresh state, no pending takeover, no socket.\<close>

definition boot :: "env \<Rightarrow> server" where
  "boot e = \<lparr>state = resetState e, pendingTakeovers = Map.empty, sockets = {}\<rparr>"

subsection \<open>A sample session\<close>

text \<open>
  Concrete inputs on which the theorems below are exercised: a roster of two teams, a
  bank of one question, an environment whose clock reads \<open>t\<close> and whose random draws
  are all 0, and event sequences that lead a session through its phases.

  The only strings and arrays sent as a choice index below are the empty string, the
  string \<^verbatim>\<open>'2'\<close> and the array \<^verbatim>\<open>[3]\<close>, which the language converts to 0, 2 and 3; the
  sample environment records these three values of the conversion and is not consulted
  on any other value.
\<close>

definition sampleToNumber :: "jsval \<Rightarrow> real option" where
  "sampleToNumber v =
     (if v = JStr [] then Some 0
      else if v = JStr ''2'' then Some 2
      else if v = JArr [JNum 3] then Some 3
      else None)"

definition envAt :: "real \<Rightarrow> env" where
  "envAt t = \<lparr>now = t, random = (\<lambda>_. 0), getClientIp = (\<lambda>_. []), getUserAgent = (\<lambda>_. []),
              toNumberBuiltin = sampleToNumber\<rparr>"

definition sampleConfig :: config where
  "sampleConfig =
     \<lparr>TEAM_REGISTRY =
        [\<lparr>infoPin = ''A'', infoName = ''Alpha'', infoAvatarUrl = [], infoMembers = [''Ann'']\<rparr>,
         \<lparr>infoPin = ''B'', infoName = ''Beta'', infoAvatarUrl = [], infoMembers = []\<rparr>],
      QUESTION_BANK =
        [\<lparr>qId = ''Q1'', qText = ''q'', qChoices = [''a'', ''b'', ''c'', ''d''],
          qCorrectIndex = 1, qTimeSec = Some 20, qMediaType = None, qMediaUrl = None\<rparr>]\<rparr>"

text \<open>A host \<open>h\<close> registers and team \<open>A\<close> joins on socket \<open>x\<close>.\<close>

definition sampleLobby :: "(env \<times> event) list" where
  "sampleLobby =
     [(envAt 0, Connection ''h''), (envAt 0, RegisterHost ''h''),
      (envAt 0, Connection ''x''), (envAt 0, JoinTeam ''x'' ''A'')]"

text \<open>The host starts the game at 1000 ms and unpauses the first question at 2000 ms.\<close>

definition sampleRunning :: "(env \<times> event) list" where
  "sampleRunning =
     sampleLobby @ [(envAt 1000, HostStart ''h''), (envAt 2000, HostPauseToggle ''h'')]"

text \<open>
  Team \<open>A\<close> locks choice 0 after 7 seconds of run time; with all draws 0 the shuffle
  has moved the correct choice to index 0.
\<close>

definition sampleLocked :: "(env \<times> event) list" where
  "sampleLocked = sampleRunning @ [(envAt 9000, LockAnswer ''x'' (JNum 0))]"

text \<open>The same session with manual scoring switched on before the reveal.\<close>

definition sampleLockedManual :: "(env \<times> event) list" where
  "sampleLockedManual = sampleLocked @ [(envAt 9500, HostSetManualScoring ''h'' True)]"

text \<open>The host reveals at 10000 ms.\<close>

definition sampleRevealed :: "(env \<times> event) list" where
  "sampleRevealed = sampleLocked @ [(envAt 10000, HostReveal ''h'')]"

text \<open>The host advances through the leaderboard to the end of the one-question game.\<close>

definition sampleFinished :: "(env \<times> event) list" where
  "sampleFinished =
     sampleRevealed @ [(envAt 11000, HostNext ''h''), (envAt 12000, HostNext ''h'')]"

text \<open>
  Team \<open>A\<close>, holding 17 points after the reveal, loses its connection and a new socket
  \<open>y\<close> connects.
\<close>

definition sampleReconnect :: "(env \<times> event) list" where
  "sampleReconnect =
     sampleRevealed @ [(envAt 11000, Disconnect ''x''), (envAt 12000, Connection ''y'')]"

text \<open>After the reveal a second device \<open>y\<close> asks for the code of team \<open>A\<close>.\<close>

definition samplePending :: "(env \<times> event) list" where
  "samplePending =
     sampleRevealed @ [(envAt 11000, Connection ''y''), (envAt 12000, JoinTeam ''y'' ''A'')]"

text \<open>
  A device \<open>r\<close> asks for the code of team \<open>A\<close>, which \<open>x\<close> holds, then joins as team
  \<open>B\<close>; the host then approves the pending takeover of \<open>A\<close>.
\<close>

definition takeoverRequested :: "(env \<times> event) list" where
  "takeoverRequested =
     sampleLobby @
     [(envAt 1, Connection ''r''), (envAt 2, JoinTeam ''r'' ''A''),
      (envAt 3, JoinTeam ''r'' ''B'')]"

definition takeoverApproved :: "(env \<times> event) list" where
  "takeoverApproved = takeoverRequested @ [(envAt 4, HostApproveTakeover ''h'' ''A'')]"

section \<open>Properties\<close>

subsection \<open>Scoring\<close>

lemma computeQuestionScore_finite:
  "computeQuestionScore isCorrect (Some ms) budget =
     (if \<not> isCorrect then 0
      else if ms / 1000 \<le> 4 then 20
      else real_of_int (max 0 (20 - \<lceil>ms / 1000 - 4\<rceil>)))"
proof -
  have late: "0 \<le> \<lceil>ms / 1000 - 4\<rceil>" if "\<not> ms / 1000 \<le> 4"
    using that by (simp add: le_ceiling_iff)
  show ?thesis
    using late by (auto simp: computeQuestionScore_def Let_def max_def)
qed

lemma computeQuestionScore_nat:
  "\<exists>n::nat. computeQuestionScore isCorrect locked budget = real n"
proof -
  have int_nat: "\<exists>n::nat. max 0 (20 - max 0 (real_of_int k)) = real n" for k :: int
  proof (cases "0 \<le> k \<and> k \<le> 20")
    case True
    then have "max 0 (20 - max 0 (real_of_int k)) = real (nat (20 - k))"
      by (simp add: max_def)
    then show ?thesis by blast
  next
    case False
    then have "max 0 (20 - max 0 (real_of_int k)) = real (if k < 0 then 20 else 0)"
      by (auto simp: max_def)
    then show ?thesis by blast
  qed
  have pts: "\<exists>n::nat. (if e \<le> 4 then 20
                     else max 0 (20 - max 0 (real_of_int \<lceil>e - 4\<rceil>))) = real n"
    for e :: real
  proof (cases "e \<le> 4")
    case True
    then show ?thesis by (intro exI[of _ 20]) simp
  next
    case False
    with int_nat[of "\<lceil>e - 4\<rceil>"] show ?thesis by simp
  qed
  show ?thesis
  proof (cases isCorrect)
    case False
    then show ?thesis
      unfolding computeQuestionScore_def by (intro exI[of _ 0]) simp
  next
    case True
    then show ?thesis
      unfolding computeQuestionScore_def Let_def
      using pts by simp
  qed
qed

text \<open>
  C1. A wrong answer scores 0. A correct answer locked at a finite \<open>ms\<close> milliseconds
  scores 20 when \<open>ms / 1000 \<le> 4\<close> and \<open>max 0 (20 - \<lceil>ms / 1000 - 4\<rceil>)\<close> otherwise,
  whatever the time budget; and for every input (a non-finite lock time included) the
  score is a non-negative integer.
\<close>

theorem C1_score_contract:
  "computeQuestionScore False locked budget = 0
   \<and> computeQuestionScore True (Some ms) budget =
       (if ms / 1000 \<le> 4 then 20 else real_of_int (max 0 (20 - \<lceil>ms / 1000 - 4\<rceil>)))
   \<and> (\<exists>n::nat. computeQuestionScore isCorrect locked budget = real n)"
  using computeQuestionScore_finite[of True ms budget]
        computeQuestionScore_nat[of isCorrect locked budget]
  by (simp add: computeQuestionScore_def)

subsection \<open>Phase and pause flag\<close>

lemma logQuestionIfNeeded_phase:
  "phase (fst (logQuestionIfNeeded e s)) = phase s \<and> paused (fst (logQuestionIfNeeded e s)) = paused s
   \<and> hostId (fst (logQuestionIfNeeded e s)) = hostId s"
  by (simp add: logQuestionIfNeeded_def Let_def split: option.split)

lemma startQuestion_phase:
  "phase (startQuestion i s) = Question \<and> paused (startQuestion i s)"
  by (simp add: startQuestion_def Let_def)

lemma resume_inv:
  "(phase s \<noteq> Question \<longrightarrow> paused s) \<Longrightarrow>
   phase (fst (resume e s)) \<noteq> Question \<longrightarrow> paused (fst (resume e s))"
  using logQuestionIfNeeded_phase[of e s]
  by (simp add: resume_def Let_def case_prod_beta)

lemma pause_inv:
  "(phase s \<noteq> Question \<longrightarrow> paused s) \<Longrightarrow>
   phase (pause e s) \<noteq> Question \<longrightarrow> paused (pause e s)"
  by (simp add: pause_def)

lemma revealAnswer_inv:
  "(phase s \<noteq> Question \<longrightarrow> paused s) \<Longrightarrow>
   phase (fst (revealAnswer e s)) \<noteq> Question \<longrightarrow> paused (fst (revealAnswer e s))"
  by (simp add: revealAnswer_def Let_def logQuestionIfNeeded_def case_prod_beta split: option.split)

lemma showLeaderboard_inv:
  "(phase s \<noteq> Question \<longrightarrow> paused s) \<Longrightarrow>
   phase (showLeaderboard s) \<noteq> Question \<longrightarrow> paused (showLeaderboard s)"
  by (simp add: showLeaderboard_def)

lemma nextQuestion_inv:
  "phase (nextQuestion s) \<noteq> Question \<longrightarrow> paused (nextQuestion s)"
  using startQuestion_phase[of "qIndex s + 1" s]
  by (simp add: nextQuestion_def Let_def)

lemma resetState_inv: "phase (resetState e) = Lobby \<and> paused (resetState e)"
  by (simp add: resetState_def)

lemma onDisconnect_phase:
  "phase (state (fst (onDisconnect srv sock))) = phase (state srv)
   \<and> paused (state (fst (onDisconnect srv sock))) = paused (state srv)"
  by (simp add: onDisconnect_def Let_def case_prod_beta split: option.split)

lemma closeSocket_phase:
  "phase (state (fst (closeSocket srv sock))) = phase (state srv)
   \<and> paused (state (fst (closeSocket srv sock))) = paused (state srv)"
  using onDisconnect_phase[of "srv\<lparr>sockets := sockets srv - {sock}\<rparr>" sock]
  by (simp add: closeSocket_def)

lemma kickTeamSocket_phase:
  "phase (state (fst (kickTeamSocket srv target))) = phase (state srv)
   \<and> paused (state (fst (kickTeamSocket srv target))) = paused (state srv)"
proof (cases target)
  case None
  then show ?thesis by (simp add: kickTeamSocket_def)
next
  case (Some t)
  then show ?thesis
    using closeSocket_phase[of srv "teamId t"]
    by (simp add: kickTeamSocket_def Let_def case_prod_beta)
qed

lemma doJoinTeam_phase:
  "phase (state (fst (doJoinTeam e srv sock p info))) = phase (state srv)
   \<and> paused (state (fst (doJoinTeam e srv sock p info))) = paused (state srv)"
  by (simp add: doJoinTeam_def Let_def)

lemma joinTeam_phase:
  "phase (state (fst (joinTeam cfg e srv sock p))) = phase (state srv)
   \<and> paused (state (fst (joinTeam cfg e srv sock p))) = paused (state srv)"
  using doJoinTeam_phase
  by (simp add: joinTeam_def Let_def split: option.split)

lemma hostKickTeam_phase:
  "phase (state (fst (hostKickTeam srv sock tid p))) = phase (state srv)
   \<and> paused (state (fst (hostKickTeam srv sock tid p))) = paused (state srv)"
proof -
  have "phase (state (fst (kickTeamSocket (srv\<lparr>pendingTakeovers := pend\<rparr>) tg))) = phase (state srv)
      \<and> paused (state (fst (kickTeamSocket (srv\<lparr>pendingTakeovers := pend\<rparr>) tg))) = paused (state srv)"
    for pend tg
    using kickTeamSocket_phase[of "srv\<lparr>pendingTakeovers := pend\<rparr>" tg] by simp
  then show ?thesis
    by (simp add: hostKickTeam_def Let_def case_prod_beta split: option.split)
qed

lemma hostApproveTakeover_phase:
  "phase (state (fst (hostApproveTakeover cfg e srv sock p))) = phase (state srv)
   \<and> paused (state (fst (hostApproveTakeover cfg e srv sock p))) = paused (state srv)"
proof -
  have k: "phase (state (fst (kickTeamSocket srv tg))) = phase (state srv)
      \<and> paused (state (fst (kickTeamSocket srv tg))) = paused (state srv)" for tg
    by (rule kickTeamSocket_phase)
  have j: "phase (state (fst (doJoinTeam e x r q info))) = phase (state x)
      \<and> paused (state (fst (doJoinTeam e x r q info))) = paused (state x)" for x r q info
    by (rule doJoinTeam_phase)
  show ?thesis
    using k j
    by (simp add: hostApproveTakeover_def Let_def case_prod_beta split: option.split)
qed


lemma lockAnswer_phase:
  "phase (state (fst (lockAnswer e srv sock c))) = phase (state srv)
   \<and> paused (state (fst (lockAnswer e srv sock c))) = paused (state srv)"
  by (simp add: lockAnswer_def Let_def split: option.split)

lemma hostDenyTakeover_phase:
  "phase (state (fst (hostDenyTakeover srv sock p))) = phase (state srv)
   \<and> paused (state (fst (hostDenyTakeover srv sock p))) = paused (state srv)"
  by (simp add: hostDenyTakeover_def Let_def split: option.split)

lemma hostSetShuffle_phase:
  "phase (state (fst (hostSetShuffle srv sock a b))) = phase (state srv)
   \<and> paused (state (fst (hostSetShuffle srv sock a b))) = paused (state srv)"
  by (simp add: hostSetShuffle_def Let_def split: option.split)

lemma hostAdjustScore_phase:
  "phase (state (fst (hostAdjustScore srv sock tid d))) = phase (state srv)
   \<and> paused (state (fst (hostAdjustScore srv sock tid d))) = paused (state srv)"
  by (simp add: hostAdjustScore_def Let_def split: option.split)

lemma hostPauseToggle_inv:
  "(phase (state srv) \<noteq> Question \<longrightarrow> paused (state srv)) \<Longrightarrow>
   phase (state (fst (hostPauseToggle e srv sock))) \<noteq> Question
     \<longrightarrow> paused (state (fst (hostPauseToggle e srv sock)))"
  using resume_inv[of "state srv" e] pause_inv[of "state srv" e]
  by (simp add: hostPauseToggle_def Let_def case_prod_beta)

lemma hostReveal_inv:
  "(phase (state srv) \<noteq> Question \<longrightarrow> paused (state srv)) \<Longrightarrow>
   phase (state (fst (hostReveal e srv sock))) \<noteq> Question
     \<longrightarrow> paused (state (fst (hostReveal e srv sock)))"
  using revealAnswer_inv[of "state srv" e]
  by (simp add: hostReveal_def Let_def case_prod_beta)

lemma tick_inv:
  "(phase (state srv) \<noteq> Question \<longrightarrow> paused (state srv)) \<Longrightarrow>
   phase (state (fst (tick e srv))) \<noteq> Question \<longrightarrow> paused (state (fst (tick e srv)))"
  using revealAnswer_inv[of "state srv" e]
  by (simp add: tick_def Let_def case_prod_beta split: option.split)

lemma hostNext_inv:
  "(phase (state srv) \<noteq> Question \<longrightarrow> paused (state srv)) \<Longrightarrow>
   phase (state (fst (hostNext srv sock))) \<noteq> Question
     \<longrightarrow> paused (state (fst (hostNext srv sock)))"
  using showLeaderboard_inv[of "state srv"] nextQuestion_inv[of "state srv"]
  by (simp add: hostNext_def Let_def)

lemma hostStart_inv:
  "(phase (state srv) \<noteq> Question \<longrightarrow> paused (state srv)) \<Longrightarrow>
   phase (state (fst (hostStart cfg e srv sock))) \<noteq> Question
     \<longrightarrow> paused (state (fst (hostStart cfg e srv sock)))"
  by (simp add: hostStart_def Let_def startQuestion_phase)

lemma hostReset_inv:
  "(phase (state srv) \<noteq> Question \<longrightarrow> paused (state srv)) \<Longrightarrow>
   phase (state (fst (hostReset e srv sock))) \<noteq> Question
     \<longrightarrow> paused (state (fst (hostReset e srv sock)))"
  by (simp add: hostReset_def Let_def resetState_inv)

lemma step_inv:
  assumes "phase (state srv) \<noteq> Question \<longrightarrow> paused (state srv)"
  shows "phase (state (fst (step cfg srv x))) \<noteq> Question
           \<longrightarrow> paused (state (fst (step cfg srv x)))"
proof (cases x)
  case (Pair e ev)
  show ?thesis
  proof (cases ev)
    case (Connection sock)
    with Pair assms show ?thesis by (simp add: onConnection_def)
  next
    case (RegisterHost sock)
    with Pair assms show ?thesis by (simp add: registerHost_def)
  next
    case (RegisterProjector sock)
    with Pair assms show ?thesis by (simp add: registerProjector_def)
  next
    case (JoinTeam sock p)
    with Pair assms show ?thesis by (simp add: joinTeam_phase)
  next
    case (HostKickTeam sock tid p)
    with Pair assms show ?thesis by (simp add: hostKickTeam_phase)
  next
    case (HostApproveTakeover sock p)
    with Pair assms show ?thesis by (simp add: hostApproveTakeover_phase)
  next
    case (HostDenyTakeover sock p)
    with Pair assms show ?thesis by (simp add: hostDenyTakeover_phase)
  next
    case (LockAnswer sock c)
    with Pair assms show ?thesis by (simp add: lockAnswer_phase)
  next
    case (HostReset sock)
    with Pair hostReset_inv[OF assms] show ?thesis by simp
  next
    case (HostSetShuffle sock a b)
    with Pair assms show ?thesis by (simp add: hostSetShuffle_phase)
  next
    case (HostSetManualScoring sock v)
    with Pair assms show ?thesis by (simp add: hostSetManualScoring_def Let_def)
  next
    case (HostAdjustScore sock tid d)
    with Pair assms show ?thesis by (simp add: hostAdjustScore_phase)
  next
    case (HostStart sock)
    with Pair hostStart_inv[OF assms] show ?thesis by simp
  next
    case (HostPauseToggle sock)
    with Pair hostPauseToggle_inv[OF assms] show ?thesis by simp
  next
    case (HostReveal sock)
    with Pair hostReveal_inv[OF assms] show ?thesis by simp
  next
    case (HostNext sock)
    with Pair hostNext_inv[OF assms] show ?thesis by simp
  next
    case (Disconnect sock)
    with Pair assms show ?thesis by (simp add: closeSocket_phase)
  next
    case Tick
    with Pair tick_inv[OF assms] show ?thesis by simp
  qed
qed

lemma run_inv:
  "(phase (state srv) \<noteq> Question \<longrightarrow> paused (state srv)) \<Longrightarrow>
   phase (state (run cfg srv xs)) \<noteq> Question \<longrightarrow> paused (state (run cfg srv xs))"
proof (induction xs arbitrary: srv)
  case Nil
  then show ?case by simp
next
  case (Cons x xs)
  from Cons.IH[OF step_inv[OF Cons.prems, of cfg x]] show ?case by simp
qed

lemma phase_cases: "ph \<in> {Lobby, Question, Revealed, Leaderboard, Finished}"
  by (cases ph) simp_all

text \<open>
  C4. In every state reached from boot by any sequence of events the phase is one of
  the five phases (the phase type has no other value) and the session is paused
  whenever the phase is not \<open>Question\<close>; and every single event (start, pause toggle,
  reveal, tick, next, reset and all the others) preserves this from any state.
\<close>

theorem C4_phase_paused_invariant:
  "phase (state (run cfg (boot e) xs)) \<in> {Lobby, Question, Revealed, Leaderboard, Finished}
   \<and> (phase (state (run cfg (boot e) xs)) \<noteq> Question \<longrightarrow> paused (state (run cfg (boot e) xs)))
   \<and> ((phase (state srv) \<noteq> Question \<longrightarrow> paused (state srv))
        \<longrightarrow> (phase (state (fst (step cfg srv x))) \<noteq> Question
              \<longrightarrow> paused (state (fst (step cfg srv x)))))"
proof -
  have "phase (state (boot e)) \<noteq> Question \<longrightarrow> paused (state (boot e))"
    by (simp add: boot_def resetState_def)
  from run_inv[OF this, of cfg xs] step_inv[of srv cfg x] phase_cases
  show ?thesis by blast
qed

theorem C4_phase_paused_invariant_witness:
  "phase (state (run sampleConfig (boot (envAt 0)) sampleRevealed)) = Revealed
   \<and> paused (state (run sampleConfig (boot (envAt 0)) sampleRevealed))
   \<and> phase (state (run sampleConfig (boot (envAt 0)) sampleLocked)) = Question
   \<and> \<not> paused (state (run sampleConfig (boot (envAt 0)) sampleLocked))
   \<and> paused (state (fst (step sampleConfig (run sampleConfig (boot (envAt 0)) sampleLocked)
                            (envAt 10000, HostReveal ''h''))))"
proof -
  have a: "phase (state (run sampleConfig (boot (envAt 0)) sampleRevealed)) = Revealed"
    by code_simp
  have b: "phase (state (run sampleConfig (boot (envAt 0)) sampleLocked)) = Question"
    by code_simp
  have c: "\<not> paused (state (run sampleConfig (boot (envAt 0)) sampleLocked))"
    by code_simp
  have d: "phase (state (fst (step sampleConfig (run sampleConfig (boot (envAt 0)) sampleLocked)
                               (envAt 10000, HostReveal ''h'')))) = Revealed"
    by code_simp
  from a b c d
    C4_phase_paused_invariant[of sampleConfig "envAt 0" sampleRevealed
      "run sampleConfig (boot (envAt 0)) sampleLocked" "(envAt 10000, HostReveal ''h'')"]
  show ?thesis by simp
qed

subsection \<open>Run clock\<close>

lemma pause_running:
  "phase s = Question \<Longrightarrow> \<not> paused s \<Longrightarrow>
   phase (pause e1 s) = Question \<and> paused (pause e1 s)
   \<and> accumulatedRunMs (pause e1 s) = getRunElapsedMs s (now e1)"
  by (simp add: pause_def getRunElapsedMs_def)

lemma logQuestionIfNeeded_clock:
  "accumulatedRunMs (fst (logQuestionIfNeeded e s)) = accumulatedRunMs s"
  by (simp add: logQuestionIfNeeded_def Let_def split: option.split)

lemma resume_paused:
  "phase s = Question \<Longrightarrow> paused s \<Longrightarrow>
   phase (fst (resume e2 s)) = Question \<and> \<not> paused (fst (resume e2 s))
   \<and> accumulatedRunMs (fst (resume e2 s)) = accumulatedRunMs s
   \<and> startedAtMs (fst (resume e2 s)) = now e2"
  using logQuestionIfNeeded_phase[of e2 s] logQuestionIfNeeded_clock[of e2 s]
  by (simp add: resume_def Let_def case_prod_beta)

lemma cycle_running:
  assumes "phase s = Question" and "\<not> paused s"
  shows "phase (fst (resume e2 (pause e1 s))) = Question
       \<and> \<not> paused (fst (resume e2 (pause e1 s)))
       \<and> accumulatedRunMs (fst (resume e2 (pause e1 s))) = getRunElapsedMs s (now e1)
       \<and> startedAtMs (fst (resume e2 (pause e1 s))) = now e2"
  using pause_running[OF assms, of e1] resume_paused[of "pause e1 s" e2] by simp

lemma cycles_reading:
  "phase s = Question \<Longrightarrow> \<not> paused s \<Longrightarrow>
   getRunElapsedMs (foldl (\<lambda>s' (e1, e2). fst (resume e2 (pause e1 s'))) s cs) t =
     accumulatedRunMs s + (sum_list (map (now \<circ> fst) cs) + t)
       - (startedAtMs s + sum_list (map (now \<circ> snd) cs))"
proof (induction cs arbitrary: s)
  case Nil
  then show ?case by (simp add: getRunElapsedMs_def)
next
  case (Cons c cs)
  obtain e1 e2 where c: "c = (e1, e2)" by (cases c)
  note cyc = cycle_running[OF Cons.prems, of e2 e1]
  from cyc have "phase (fst (resume e2 (pause e1 s))) = Question"
    and "\<not> paused (fst (resume e2 (pause e1 s)))" by simp_all
  from Cons.IH[OF this] cyc Cons.prems c show ?case
    by (simp add: getRunElapsedMs_def)
qed

text \<open>
  C5. For a state in phase \<open>Question\<close> that is running: the reading taken at the clock
  value of a pause equals the reading taken at the clock value of the matching resume,
  whatever the two clock values are; every reading taken while paused is that same
  value; after the resume the reading grows by exactly the time since the resume; the
  state is running again, so the same holds for the next cycle; and after any list of
  pause/resume cycles the reading is the accumulated time plus the sum of the stop
  times (the pauses and the reading) minus the sum of the start times (the last start
  before the cycles and the resumes).
\<close>

theorem C5_pause_resume_round_trip:
  assumes "phase s = Question" and "\<not> paused s"
  shows "getRunElapsedMs (fst (resume e2 (pause e1 s))) (now e2) = getRunElapsedMs s (now e1)
       \<and> getRunElapsedMs (pause e1 s) t = getRunElapsedMs s (now e1)
       \<and> getRunElapsedMs (fst (resume e2 (pause e1 s))) t = getRunElapsedMs s (now e1) + (t - now e2)
       \<and> phase (fst (resume e2 (pause e1 s))) = Question
       \<and> \<not> paused (fst (resume e2 (pause e1 s)))
       \<and> getRunElapsedMs (foldl (\<lambda>s' (p, r). fst (resume r (pause p s'))) s cs) t =
           accumulatedRunMs s + (sum_list (map (now \<circ> fst) cs) + t)
             - (startedAtMs s + sum_list (map (now \<circ> snd) cs))"
  using cycle_running[OF assms, of e2 e1] pause_running[OF assms, of e1]
        cycles_reading[OF assms, of cs t]
  by (simp add: getRunElapsedMs_def)

theorem C5_pause_resume_round_trip_witness:
  "phase (state (run sampleConfig (boot (envAt 0)) sampleRunning)) = Question
   \<and> \<not> paused (state (run sampleConfig (boot (envAt 0)) sampleRunning))
   \<and> getRunElapsedMs (state (run sampleConfig (boot (envAt 0)) sampleRunning)) 5000 = 3000
   \<and> getRunElapsedMs
        (fst (resume (envAt 60000)
               (pause (envAt 5000) (state (run sampleConfig (boot (envAt 0)) sampleRunning)))))
        60000 = 3000"
proof -
  have a: "phase (state (run sampleConfig (boot (envAt 0)) sampleRunning)) = Question"
    by code_simp
  have b: "\<not> paused (state (run sampleConfig (boot (envAt 0)) sampleRunning))"
    by code_simp
  have c: "getRunElapsedMs (state (run sampleConfig (boot (envAt 0)) sampleRunning)) 5000 = 3000"
    by code_simp
  have n: "now (envAt 60000) = 60000" "now (envAt 5000) = 5000"
    by (simp_all add: envAt_def)
  from C5_pause_resume_round_trip[OF a b, of "envAt 60000" "envAt 5000" 0 "[]"] a b c n
  show ?thesis by simp
qed

subsection \<open>Locking an answer\<close>







subsection \<open>Host registration\<close>

text \<open>
  C8. A \<^verbatim>\<open>registerHost\<close> event from any socket in any state makes that socket the host:
  only \<open>hostId\<close> changes, no condition is tested, and the two messages emitted are
  addressed to the registering socket, so nothing is sent to any other socket (a
  displaced host included) and nothing is broadcast.
\<close>

theorem C8_registerHost_unconditional:
  "hostId (state (fst (step cfg srv (e, RegisterHost sock)))) = Some sock
   \<and> isHost (state (fst (step cfg srv (e, RegisterHost sock)))) sock
   \<and> fst (step cfg srv (e, RegisterHost sock)) = srv\<lparr>state := (state srv)\<lparr>hostId := Some sock\<rparr>\<rparr>
   \<and> snd (step cfg srv (e, RegisterHost sock)) = [Emit sock MState, Emit sock MHostState]
   \<and> (\<forall>h m. h \<noteq> sock \<longrightarrow> Emit h m \<notin> set (snd (step cfg srv (e, RegisterHost sock))))
   \<and> (\<forall>m. EmitAll m \<notin> set (snd (step cfg srv (e, RegisterHost sock))))"
  by (simp add: registerHost_def isHost_def)


theorem C8_registerHost_unconditional_witness:
  "hostId (state (run sampleConfig (boot (envAt 0)) sampleLobby)) = Some ''h''
   \<and> hostId (state (fst (step sampleConfig (run sampleConfig (boot (envAt 0)) sampleLobby)
                           (envAt 1, RegisterHost ''x'')))) = Some ''x''
   \<and> Emit ''h'' MHostState \<notin> set (snd (step sampleConfig
         (run sampleConfig (boot (envAt 0)) sampleLobby) (envAt 1, RegisterHost ''x'')))"
proof -
  note th = C8_registerHost_unconditional[of sampleConfig
      "run sampleConfig (boot (envAt 0)) sampleLobby" "envAt 1" "''x''"]
  have a: "hostId (state (run sampleConfig (boot (envAt 0)) sampleLobby)) = Some ''h''"
    by code_simp
  have b: "''h'' \<noteq> ''x''" by simp
  from th have c: "\<forall>h m. h \<noteq> ''x'' \<longrightarrow> Emit h m \<notin> set (snd (step sampleConfig
         (run sampleConfig (boot (envAt 0)) sampleLobby) (envAt 1, RegisterHost ''x'')))"
    by (elim conjE)
  from c b have d: "Emit ''h'' MHostState \<notin> set (snd (step sampleConfig
         (run sampleConfig (boot (envAt 0)) sampleLobby) (envAt 1, RegisterHost ''x'')))"
    by (elim allE impE)
  from th have e: "hostId (state (fst (step sampleConfig (run sampleConfig (boot (envAt 0)) sampleLobby)
                           (envAt 1, RegisterHost ''x'')))) = Some ''x''"
    by (elim conjE)
  from a d e show ?thesis by (intro conjI)
qed

subsection \<open>Host-only commands and reset\<close>

lemma hostCommand_ignored:
  "hostCommandSocket ev = Some sock \<Longrightarrow> \<not> isHost (state srv) sock \<Longrightarrow>
   step cfg srv (e, ev) = (srv, [])"
  by (cases ev)
     (simp_all add: hostKickTeam_def hostApproveTakeover_def hostDenyTakeover_def
        hostReset_def hostSetShuffle_def hostSetManualScoring_def hostAdjustScore_def
        hostStart_def hostPauseToggle_def hostReveal_def hostNext_def)

lemma revealAnswer_hostId: "hostId (fst (revealAnswer e s)) = hostId s"
  by (simp add: revealAnswer_def Let_def logQuestionIfNeeded_def case_prod_beta split: option.split)

lemma resume_hostId: "hostId (fst (resume e s)) = hostId s"
  by (simp add: resume_def Let_def logQuestionIfNeeded_def case_prod_beta split: option.split)

lemma onDisconnect_hostId:
  "hostId (state (fst (onDisconnect srv sock))) \<in> {hostId (state srv), None}"
  by (simp add: onDisconnect_def Let_def case_prod_beta split: option.split)

lemma closeSocket_hostId:
  "hostId (state (fst (closeSocket srv sock))) \<in> {hostId (state srv), None}"
  using onDisconnect_hostId[of "srv\<lparr>sockets := sockets srv - {sock}\<rparr>" sock]
  by (simp add: closeSocket_def)

lemma kickTeamSocket_hostId:
  "hostId (state (fst (kickTeamSocket srv target))) \<in> {hostId (state srv), None}"
proof (cases target)
  case None
  then show ?thesis by (simp add: kickTeamSocket_def)
next
  case (Some t)
  then show ?thesis
    using closeSocket_hostId[of srv "teamId t"]
    by (simp add: kickTeamSocket_def Let_def case_prod_beta)
qed

lemma doJoinTeam_hostId:
  "hostId (state (fst (doJoinTeam e srv sock p info))) = hostId (state srv)"
  by (simp add: doJoinTeam_def Let_def)

lemma hostKickTeam_hostId:
  "hostId (state (fst (hostKickTeam srv sock tid p))) \<in> {hostId (state srv), None}"
proof -
  have "hostId (state (fst (kickTeamSocket (srv\<lparr>pendingTakeovers := pend\<rparr>) tg)))
          \<in> {hostId (state srv), None}" for pend tg
    using kickTeamSocket_hostId[of "srv\<lparr>pendingTakeovers := pend\<rparr>" tg] by simp
  then show ?thesis
    by (simp add: hostKickTeam_def Let_def case_prod_beta split: option.split)
qed

lemma hostApproveTakeover_hostId:
  "hostId (state (fst (hostApproveTakeover cfg e srv sock p))) \<in> {hostId (state srv), None}"
proof -
  have k: "hostId (state (fst (kickTeamSocket srv tg))) \<in> {hostId (state srv), None}" for tg
    by (rule kickTeamSocket_hostId)
  have j: "hostId (state (fst (doJoinTeam e x r q info))) = hostId (state x)" for x r q info
    by (rule doJoinTeam_hostId)
  show ?thesis
    using k j
    by (simp add: hostApproveTakeover_def Let_def case_prod_beta split: option.split)
qed

lemma step_hostId:
  assumes "\<forall>s. ev \<noteq> RegisterHost s"
  shows "hostId (state (fst (step cfg srv (e, ev)))) \<in> {hostId (state srv), None}"
proof (cases ev)
  case (RegisterHost sock)
  with assms show ?thesis by simp
next
  case (JoinTeam sock p)
  then show ?thesis
    by (simp add: joinTeam_def doJoinTeam_hostId Let_def split: option.split)
next
  case (HostKickTeam sock tid p)
  then show ?thesis using hostKickTeam_hostId[of srv sock tid p] by simp
next
  case (HostApproveTakeover sock p)
  then show ?thesis using hostApproveTakeover_hostId[of cfg e srv sock p] by simp
next
  case (HostReset sock)
  then show ?thesis by (simp add: hostReset_def Let_def resetState_def)
next
  case (HostPauseToggle sock)
  then show ?thesis
    by (simp add: hostPauseToggle_def Let_def case_prod_beta resume_hostId pause_def)
next
  case (HostReveal sock)
  then show ?thesis
    by (simp add: hostReveal_def Let_def case_prod_beta revealAnswer_hostId)
next
  case (HostNext sock)
  then show ?thesis
    by (simp add: hostNext_def Let_def showLeaderboard_def nextQuestion_def startQuestion_def)
next
  case (Disconnect sock)
  then show ?thesis using closeSocket_hostId[of srv sock] by simp
next
  case Tick
  then show ?thesis
    by (simp add: tick_def Let_def case_prod_beta revealAnswer_hostId split: option.split)
next
  case (HostStart sock)
  then show ?thesis by (simp add: hostStart_def Let_def startQuestion_def)
qed (simp_all add: onConnection_def registerProjector_def hostDenyTakeover_def
       lockAnswer_def hostSetShuffle_def hostSetManualScoring_def hostAdjustScore_def
       Let_def split: option.split)

lemma notHost_step:
  assumes "\<not> isHost (state srv) sock" and "ev \<noteq> RegisterHost sock"
  shows "\<not> isHost (state (fst (step cfg srv (e, ev)))) sock"
proof (cases "\<exists>s. ev = RegisterHost s")
  case True
  then obtain s where "ev = RegisterHost s" by blast
  with assms(2) show ?thesis by (simp add: registerHost_def isHost_def)
next
  case False
  then have "\<forall>s. ev \<noteq> RegisterHost s" by simp
  from step_hostId[OF this, of cfg srv e] assms(1) show ?thesis
    by (auto simp: isHost_def)
qed

lemma notHost_run:
  "\<not> isHost (state srv) sock \<Longrightarrow> \<forall>x \<in> set xs. snd x \<noteq> RegisterHost sock \<Longrightarrow>
   \<not> isHost (state (run cfg srv xs)) sock"
proof (induction xs arbitrary: srv)
  case Nil
  then show ?case by simp
next
  case (Cons x xs)
  obtain e ev where x: "x = (e, ev)" by (cases x)
  with Cons.prems have "\<not> isHost (state (fst (step cfg srv x))) sock"
    using notHost_step[of srv sock ev cfg e] by simp
  from Cons.IH[OF this] Cons.prems show ?case by simp
qed

text \<open>
  C10. A reset issued by the registered host replaces the whole state by a fresh one and
  empties the pending takeovers: no team, no claimed code, no host and no display
  socket remain, and the broadcast that follows sends no host projection. From then
  on, after any events that do not include a \<^verbatim>\<open>registerHost\<close> from the socket that issued
  the reset, every host-only command from that socket leaves the server unchanged and
  emits nothing; a \<^verbatim>\<open>registerHost\<close> from it makes it the host again.
\<close>

theorem C10_reset_clears_host:
  assumes "isHost (state srv) sock"
  shows "state (fst (step cfg srv (e, HostReset sock))) = resetState e
       \<and> pendingTakeovers (fst (step cfg srv (e, HostReset sock))) = Map.empty
       \<and> teams (state (fst (step cfg srv (e, HostReset sock)))) = []
       \<and> claimedPins (state (fst (step cfg srv (e, HostReset sock)))) = {}
       \<and> hostId (state (fst (step cfg srv (e, HostReset sock)))) = None
       \<and> projectorIds (state (fst (step cfg srv (e, HostReset sock)))) = {}
       \<and> snd (step cfg srv (e, HostReset sock)) = [EmitAll MState]
       \<and> ((\<forall>x \<in> set xs. snd x \<noteq> RegisterHost sock) \<and> hostCommandSocket ev = Some sock \<longrightarrow>
            step cfg (run cfg (fst (step cfg srv (e, HostReset sock))) xs) (e', ev) =
              (run cfg (fst (step cfg srv (e, HostReset sock))) xs, []))
       \<and> isHost (state (fst (step cfg (run cfg (fst (step cfg srv (e, HostReset sock))) xs)
                                (e', RegisterHost sock)))) sock"
proof -
  let ?srv' = "fst (step cfg srv (e, HostReset sock))"
  have r: "?srv' = srv\<lparr>state := resetState e, pendingTakeovers := Map.empty\<rparr>"
    and out: "snd (step cfg srv (e, HostReset sock)) = [EmitAll MState]"
    using assms by (simp_all add: hostReset_def Let_def broadcast_def resetState_def)
  have h: "\<not> isHost (state ?srv') sock"
    unfolding r by (simp add: resetState_def isHost_def)
  have ign: "step cfg (run cfg ?srv' xs) (e', ev) = (run cfg ?srv' xs, [])"
    if "\<forall>x \<in> set xs. snd x \<noteq> RegisterHost sock" and "hostCommandSocket ev = Some sock"
    using hostCommand_ignored[OF that(2) notHost_run[OF h that(1)]] .
  have reg: "isHost (state (fst (step cfg (run cfg ?srv' xs) (e', RegisterHost sock)))) sock"
    by (simp add: registerHost_def isHost_def)
  from r out ign reg show ?thesis
    by (simp add: resetState_def)
qed

theorem C10_reset_clears_host_witness:
  "isHost (state (run sampleConfig (boot (envAt 0)) sampleRevealed)) ''h''
   \<and> hostId (state (fst (step sampleConfig (run sampleConfig (boot (envAt 0)) sampleRevealed)
                           (envAt 11000, HostReset ''h'')))) = None
   \<and> step sampleConfig
        (run sampleConfig
           (fst (step sampleConfig (run sampleConfig (boot (envAt 0)) sampleRevealed)
                   (envAt 11000, HostReset ''h'')))
           [(envAt 11500, JoinTeam ''x'' ''A'')])
        (envAt 12000, HostStart ''h'') =
       (run sampleConfig
           (fst (step sampleConfig (run sampleConfig (boot (envAt 0)) sampleRevealed)
                   (envAt 11000, HostReset ''h'')))
           [(envAt 11500, JoinTeam ''x'' ''A'')], [])"
proof -
  have a: "isHost (state (run sampleConfig (boot (envAt 0)) sampleRevealed)) ''h''"
    by code_simp
  note th = C10_reset_clears_host[OF a, where cfg = sampleConfig and e = "envAt 11000"
      and xs = "[(envAt 11500, JoinTeam ''x'' ''A'')]" and ev = "HostStart ''h''"
      and e' = "envAt 12000"]
  have b: "\<forall>x \<in> set [(envAt 11500, JoinTeam ''x'' ''A'')]. snd x \<noteq> RegisterHost ''h''"
    by simp
  have c: "hostCommandSocket (HostStart ''h'') = Some ''h''" by simp
  from th b c a show ?thesis by (simp add: resetState_def)
qed

subsection \<open>Starting a game\<close>

lemma length_shuffleLoop: "length (shuffleLoop rnd k i arr) = length arr"
  by (induction i arbitrary: k arr) (simp_all add: Let_def)

lemma length_shuffleArray: "length (fst (shuffleArray rnd k arr)) = length arr"
  by (simp add: shuffleArray_def length_shuffleLoop)

lemma length_shuffleChoicesAll: "length (fst (shuffleChoicesAll rnd k qs)) = length qs"
  by (induction qs arbitrary: k) (simp_all add: case_prod_beta Let_def)

lemma length_buildGameQuestions:
  "length (buildGameQuestions rnd bank sq sc) = length bank"
  by (simp add: buildGameQuestions_def case_prod_beta length_shuffleArray length_shuffleChoicesAll)

lemma startQuestion_fields:
  "phase (startQuestion i s) = Question \<and> qIndex (startQuestion i s) = i
   \<and> paused (startQuestion i s) \<and> accumulatedRunMs (startQuestion i s) = 0
   \<and> startedAtMs (startQuestion i s) = 0
   \<and> gameQuestions (startQuestion i s) = gameQuestions s
   \<and> teams (startQuestion i s) = map (\<lambda>(k, t). (k, clearAnswer t)) (teams s)"
  by (simp add: startQuestion_def Let_def)

lemma clearAnswer_fields:
  "lockedChoice (clearAnswer t) = None \<and> lockedAtRunMs (clearAnswer t) = None
   \<and> lastResult (clearAnswer t) = None \<and> lastPointsAwarded (clearAnswer t) = 0
   \<and> score (clearAnswer t) = score t \<and> pin (clearAnswer t) = pin t"
  by (simp add: clearAnswer_def)

lemma hostStart_result:
  assumes "isHost (state srv) sock" and "QUESTION_BANK cfg \<noteq> []"
  shows "state (fst (hostStart cfg e srv sock)) =
           startQuestion 0
             ((state srv)\<lparr>gameQuestions :=
                Some (buildGameQuestions (random e) (QUESTION_BANK cfg)
                        (shuffleQuestions (state srv)) (shuffleChoices (state srv)))\<rparr>)"
  using assms by (simp add: hostStart_def Let_def)

text \<open>
  C3, as amended. \<^verbatim>\<open>hostStart\<close> tests no phase. From a socket that is not the registered
  host it does nothing. From the registered host, in every phase: with an empty question
  bank it emits a host error to the caller and changes nothing; otherwise it stores a
  question run built from the bank (of the bank's length), sets the phase to
  \<open>Question\<close> at index 0, paused, with the run clock at zero, and keeps the teams in
  place with their four answer fields cleared.
\<close>

theorem C3_hostStart_every_phase:
  "(\<not> isHost (state srv) sock \<longrightarrow> step cfg srv (e, HostStart sock) = (srv, []))
   \<and> (isHost (state srv) sock \<and> QUESTION_BANK cfg = [] \<longrightarrow>
        step cfg srv (e, HostStart sock) =
          (srv, [Emit sock (MHostError ''No questions loaded from the Questions sheet.'')]))
   \<and> (isHost (state srv) sock \<and> QUESTION_BANK cfg \<noteq> [] \<longrightarrow>
        gameQuestions (state (fst (step cfg srv (e, HostStart sock)))) =
          Some (buildGameQuestions (random e) (QUESTION_BANK cfg)
                  (shuffleQuestions (state srv)) (shuffleChoices (state srv)))
        \<and> length (buildGameQuestions (random e) (QUESTION_BANK cfg)
                  (shuffleQuestions (state srv)) (shuffleChoices (state srv)))
            = length (QUESTION_BANK cfg)
        \<and> phase (state (fst (step cfg srv (e, HostStart sock)))) = Question
        \<and> qIndex (state (fst (step cfg srv (e, HostStart sock)))) = 0
        \<and> paused (state (fst (step cfg srv (e, HostStart sock))))
        \<and> accumulatedRunMs (state (fst (step cfg srv (e, HostStart sock)))) = 0
        \<and> startedAtMs (state (fst (step cfg srv (e, HostStart sock)))) = 0
        \<and> getRunElapsedMs (state (fst (step cfg srv (e, HostStart sock)))) t = 0
        \<and> map fst (teams (state (fst (step cfg srv (e, HostStart sock))))) =
            map fst (teams (state srv))
        \<and> (\<forall>x \<in> set (teams (state (fst (step cfg srv (e, HostStart sock))))).
              lockedChoice (snd x) = None \<and> lockedAtRunMs (snd x) = None
              \<and> lastResult (snd x) = None \<and> lastPointsAwarded (snd x) = 0))"
proof (intro conjI impI)
  assume "\<not> isHost (state srv) sock"
  then show "step cfg srv (e, HostStart sock) = (srv, [])"
    by (simp add: hostStart_def)
next
  assume "isHost (state srv) sock \<and> QUESTION_BANK cfg = []"
  then show "step cfg srv (e, HostStart sock) =
          (srv, [Emit sock (MHostError ''No questions loaded from the Questions sheet.'')])"
    by (simp add: hostStart_def)
next
  assume h: "isHost (state srv) sock \<and> QUESTION_BANK cfg \<noteq> []"
  let ?s0 = "(state srv)\<lparr>gameQuestions :=
                Some (buildGameQuestions (random e) (QUESTION_BANK cfg)
                        (shuffleQuestions (state srv)) (shuffleChoices (state srv)))\<rparr>"
  from h have st: "state (fst (step cfg srv (e, HostStart sock))) = startQuestion 0 ?s0"
    using hostStart_result[of srv sock cfg e] by simp
  note f = startQuestion_fields[of 0 ?s0]
  from st f show "gameQuestions (state (fst (step cfg srv (e, HostStart sock)))) =
          Some (buildGameQuestions (random e) (QUESTION_BANK cfg)
                  (shuffleQuestions (state srv)) (shuffleChoices (state srv)))"
    by simp
  show "length (buildGameQuestions (random e) (QUESTION_BANK cfg)
                  (shuffleQuestions (state srv)) (shuffleChoices (state srv)))
            = length (QUESTION_BANK cfg)"
    by (rule length_buildGameQuestions)
  from st f show "phase (state (fst (step cfg srv (e, HostStart sock)))) = Question"
    by simp
  from st f show "qIndex (state (fst (step cfg srv (e, HostStart sock)))) = 0"
    by simp
  from st f show "paused (state (fst (step cfg srv (e, HostStart sock))))"
    by simp
  from st f show "accumulatedRunMs (state (fst (step cfg srv (e, HostStart sock)))) = 0"
    by simp
  from st f show "startedAtMs (state (fst (step cfg srv (e, HostStart sock)))) = 0"
    by simp
  from st f show "getRunElapsedMs (state (fst (step cfg srv (e, HostStart sock)))) t = 0"
    by (simp add: getRunElapsedMs_def)
  from st f show "map fst (teams (state (fst (step cfg srv (e, HostStart sock))))) =
            map fst (teams (state srv))"
    by (simp add: case_prod_beta comp_def)
  from st f clearAnswer_fields
  show "\<forall>x \<in> set (teams (state (fst (step cfg srv (e, HostStart sock))))).
              lockedChoice (snd x) = None \<and> lockedAtRunMs (snd x) = None
              \<and> lastResult (snd x) = None \<and> lastPointsAwarded (snd x) = 0"
    by (simp add: case_prod_beta)
qed

theorem C3_hostStart_every_phase_witness:
  "phase (state (run sampleConfig (boot (envAt 0)) sampleFinished)) = Finished
   \<and> phase (state (fst (step sampleConfig (run sampleConfig (boot (envAt 0)) sampleFinished)
                          (envAt 13000, HostStart ''h'')))) = Question
   \<and> qIndex (state (fst (step sampleConfig (run sampleConfig (boot (envAt 0)) sampleFinished)
                          (envAt 13000, HostStart ''h'')))) = 0
   \<and> paused (state (fst (step sampleConfig (run sampleConfig (boot (envAt 0)) sampleFinished)
                          (envAt 13000, HostStart ''h''))))
   \<and> step sampleConfig (run sampleConfig (boot (envAt 0)) sampleFinished)
        (envAt 13000, HostStart ''x'') = (run sampleConfig (boot (envAt 0)) sampleFinished, [])
   \<and> step (sampleConfig\<lparr>QUESTION_BANK := []\<rparr>) (run sampleConfig (boot (envAt 0)) sampleFinished)
        (envAt 13000, HostStart ''h'') =
       (run sampleConfig (boot (envAt 0)) sampleFinished,
        [Emit ''h'' (MHostError ''No questions loaded from the Questions sheet.'')])"
proof -
  let ?srv = "run sampleConfig (boot (envAt 0)) sampleFinished"
  have a: "isHost (state ?srv) ''h''" by code_simp
  have b: "\<not> isHost (state ?srv) ''x''" by code_simp
  have c: "QUESTION_BANK sampleConfig \<noteq> []" by (simp add: sampleConfig_def)
  have d: "QUESTION_BANK (sampleConfig\<lparr>QUESTION_BANK := []\<rparr>) = []" by simp
  have f: "phase (state ?srv) = Finished" by code_simp
  note th1 = C3_hostStart_every_phase[where srv = "?srv" and sock = "''h''" and cfg = sampleConfig
      and e = "envAt 13000"]
  note th2 = C3_hostStart_every_phase[where srv = "?srv" and sock = "''x''" and cfg = sampleConfig
      and e = "envAt 13000"]
  note th3 = C3_hostStart_every_phase[where srv = "?srv" and sock = "''h''"
      and cfg = "sampleConfig\<lparr>QUESTION_BANK := []\<rparr>" and e = "envAt 13000"]
  from th1 a c have 1: "phase (state (fst (step sampleConfig ?srv (envAt 13000, HostStart ''h'')))) = Question
    \<and> qIndex (state (fst (step sampleConfig ?srv (envAt 13000, HostStart ''h'')))) = 0
    \<and> paused (state (fst (step sampleConfig ?srv (envAt 13000, HostStart ''h''))))"
    by simp
  from th2 b have 2: "step sampleConfig ?srv (envAt 13000, HostStart ''x'') = (?srv, [])"
    by simp
  from th3 a d have 3: "step (sampleConfig\<lparr>QUESTION_BANK := []\<rparr>) ?srv (envAt 13000, HostStart ''h'') =
       (?srv, [Emit ''h'' (MHostError ''No questions loaded from the Questions sheet.'')])"
    by simp
  from f 1 2 3 show ?thesis by simp
qed

text \<open>
  C3 as stated fails: in phase \<open>Finished\<close> a \<^verbatim>\<open>hostStart\<close> from the registered host does
  not leave the server as it is; the session is in phase \<open>Question\<close> again.
\<close>

theorem C3_start_outside_lobby_counterexample:
  "isHost (state (run sampleConfig (boot (envAt 0)) sampleFinished)) ''h''
   \<and> phase (state (run sampleConfig (boot (envAt 0)) sampleFinished)) = Finished
   \<and> phase (state (fst (step sampleConfig (run sampleConfig (boot (envAt 0)) sampleFinished)
                          (envAt 13000, HostStart ''h'')))) = Question
   \<and> step sampleConfig (run sampleConfig (boot (envAt 0)) sampleFinished)
        (envAt 13000, HostStart ''h'') \<noteq>
       (run sampleConfig (boot (envAt 0)) sampleFinished, [])"
proof -
  have a: "isHost (state (run sampleConfig (boot (envAt 0)) sampleFinished)) ''h''"
    by code_simp
  have b: "phase (state (run sampleConfig (boot (envAt 0)) sampleFinished)) = Finished"
    by code_simp
  have c: "phase (state (fst (step sampleConfig (run sampleConfig (boot (envAt 0)) sampleFinished)
                          (envAt 13000, HostStart ''h'')))) = Question"
    by code_simp
  have d: "step sampleConfig (run sampleConfig (boot (envAt 0)) sampleFinished)
        (envAt 13000, HostStart ''h'') \<noteq>
       (run sampleConfig (boot (envAt 0)) sampleFinished, [])"
  proof
    assume "step sampleConfig (run sampleConfig (boot (envAt 0)) sampleFinished)
        (envAt 13000, HostStart ''h'') =
       (run sampleConfig (boot (envAt 0)) sampleFinished, [])"
    then have "phase (state (fst (step sampleConfig (run sampleConfig (boot (envAt 0)) sampleFinished)
                          (envAt 13000, HostStart ''h'')))) =
               phase (state (run sampleConfig (boot (envAt 0)) sampleFinished))"
      by (simp only: fst_conv)
    with b c show False by simp
  qed
  from a b c d show ?thesis by (intro conjI)
qed

subsection \<open>New teams\<close>

lemma doJoinTeam_team:
  "map_of (teams (state (fst (doJoinTeam e srv sock p info)))) sock = Some (newTeam e sock p info)"
  by (simp add: doJoinTeam_def Let_def update_conv')

lemma newTeam_fresh: "score (newTeam e sock p info) = 0 \<and> pin (newTeam e sock p info) = p"
  by (simp add: newTeam_def)

lemma joinTeam_new:
  assumes "map_of (teams (state srv)) sock = None"
    and "map_of (teams (state (fst (joinTeam cfg e srv sock p)))) sock = Some t"
  shows "score t = 0 \<and> pin t = trim p"
proof (cases "find (\<lambda>i. infoPin i = trim p) (TEAM_REGISTRY cfg)")
  case None
  with assms show ?thesis by (simp add: joinTeam_def Let_def)
next
  case (Some info)
  show ?thesis
  proof (cases "trim p \<in> claimedPins (state srv)")
    case True
    with Some assms show ?thesis by (simp add: joinTeam_def Let_def)
  next
    case False
    with Some assms(1) have "joinTeam cfg e srv sock p = doJoinTeam e srv sock (trim p) info"
      by (simp add: joinTeam_def Let_def)
    with assms(2) doJoinTeam_team[of e srv sock "trim p" info] newTeam_fresh[of e sock "trim p" info]
    show ?thesis by simp
  qed
qed

lemma hostApproveTakeover_team:
  assumes "isHost (state srv) h" and "pendingTakeovers srv (trim p) = Some req"
    and "requesterId req \<in> sockets srv"
    and "find (\<lambda>i. infoPin i = trim p) (TEAM_REGISTRY cfg) = Some info"
  shows "map_of (teams (state (fst (hostApproveTakeover cfg e srv h p)))) (requesterId req) =
           Some (newTeam e (requesterId req) (trim p) info)"
proof -
  have j: "map_of (teams (state (fst (doJoinTeam e x r q i)))) r = Some (newTeam e r q i)"
    for x r q i by (rule doJoinTeam_team)
  from assms j show ?thesis
    by (simp add: hostApproveTakeover_def Let_def case_prod_beta split: option.split)
qed

text \<open>
  C9. The team object that \<^verbatim>\<open>doJoinTeam\<close> stores for a socket has score 0. So a socket
  that held no team and holds one after a \<^verbatim>\<open>joinTeam\<close> event holds a team with score 0
  and the code it entered, whatever score a team with that code had before; and after an
  approved takeover whose requester is still connected, the requester holds a fresh team
  with score 0 for that code.
\<close>

theorem C9_new_team_scores_zero:
  "map_of (teams (state (fst (doJoinTeam e srv sock p info)))) sock = Some (newTeam e sock p info)
   \<and> score (newTeam e sock p info) = 0
   \<and> (map_of (teams (state srv)) sock = None
        \<and> map_of (teams (state (fst (step cfg srv (e, JoinTeam sock p))))) sock = Some t
      \<longrightarrow> score t = 0 \<and> pin t = trim p)
   \<and> (isHost (state srv) h \<and> pendingTakeovers srv (trim p) = Some req
        \<and> requesterId req \<in> sockets srv
        \<and> find (\<lambda>i. infoPin i = trim p) (TEAM_REGISTRY cfg) = Some info
      \<longrightarrow> map_of (teams (state (fst (step cfg srv (e, HostApproveTakeover h p)))))
            (requesterId req) = Some (newTeam e (requesterId req) (trim p) info))"
  using doJoinTeam_team[of e srv sock p info] newTeam_fresh[of e sock p info]
        joinTeam_new[of srv sock cfg e p t] hostApproveTakeover_team[of srv h p req cfg info e]
  by simp

theorem C9_new_team_scores_zero_witness:
  "map_option score
     (map_of (teams (state (run sampleConfig (boot (envAt 0)) sampleRevealed))) ''x'') = Some 17
   \<and> map_option score
       (map_of (teams (state (fst (step sampleConfig
                   (run sampleConfig (boot (envAt 0)) sampleReconnect)
                   (envAt 13000, JoinTeam ''y'' ''A''))))) ''y'') = Some 0
   \<and> map_option score
       (map_of (teams (state (fst (step sampleConfig
                   (run sampleConfig (boot (envAt 0)) samplePending)
                   (envAt 13000, HostApproveTakeover ''h'' ''A''))))) ''y'') = Some 0"
proof -
  let ?info = "\<lparr>infoPin = ''A'', infoName = ''Alpha'', infoAvatarUrl = [],
                 infoMembers = [''Ann'']\<rparr>"
  let ?t = "newTeam (envAt 13000) ''y'' ''A'' ?info"
  let ?req = "\<lparr>requesterId = ''y'', requestedAt = 12000, reqIp = [], reqUserAgent = []\<rparr>"
  let ?srvD = "run sampleConfig (boot (envAt 0)) sampleReconnect"
  let ?srvP = "run sampleConfig (boot (envAt 0)) samplePending"
  have before: "map_option score
     (map_of (teams (state (run sampleConfig (boot (envAt 0)) sampleRevealed))) ''x'') = Some 17"
    by code_simp
  have tr: "trim ''A'' = ''A''" by code_simp
  have d1: "map_of (teams (state ?srvD)) ''y'' = None" by code_simp
  have d2: "map_of (teams (state (fst (step sampleConfig ?srvD (envAt 13000, JoinTeam ''y'' ''A'')))))
              ''y'' = Some ?t"
    by code_simp
  have p1: "isHost (state ?srvP) ''h''" by code_simp
  have p2: "pendingTakeovers ?srvP (trim ''A'') = Some ?req" by code_simp
  have p3: "requesterId ?req \<in> sockets ?srvP" by code_simp
  have p4: "find (\<lambda>i. infoPin i = trim ''A'') (TEAM_REGISTRY sampleConfig) = Some ?info"
    by code_simp
  note th1 = C9_new_team_scores_zero[where srv = "?srvD" and sock = "''y''" and cfg = sampleConfig
      and e = "envAt 13000" and p = "''A''" and t = "?t"]
  note th2 = C9_new_team_scores_zero[where srv = "?srvP" and h = "''h''" and cfg = sampleConfig
      and e = "envAt 13000" and p = "''A''" and req = "?req" and info = "?info"]
  from th1 d1 d2 have r1: "score ?t = 0" by simp
  from th2 p1 p2 p3 p4 have r2:
    "map_of (teams (state (fst (step sampleConfig ?srvP (envAt 13000, HostApproveTakeover ''h'' ''A'')))))
       (requesterId ?req) = Some (newTeam (envAt 13000) (requesterId ?req) (trim ''A'') ?info)"
    by simp
  from th2 have r3: "score (newTeam (envAt 13000) (requesterId ?req) (trim ''A'') ?info) = 0"
    by (simp add: newTeam_def)
  from before d2 r1 r2 r3 show ?thesis by simp
qed

subsection \<open>Claimed codes\<close>

text \<open>
  C2 fails on the code. After \<open>r\<close> has requested code \<open>A\<close> and joined as team \<open>B\<close>,
  code \<open>B\<close> is claimed and held by \<open>r\<close>. The approved takeover of \<open>A\<close> overwrites the
  team of \<open>r\<close>: \<^verbatim>\<open>hostApproveTakeover\<close> does not test, as \<^verbatim>\<open>joinTeam\<close> does, whether the
  requester already holds a team. Code \<open>B\<close> stays in the claimed set and no team holds it.
  (A \<^verbatim>\<open>joinTeam\<close> for \<open>A\<close> from \<open>r\<close> in the same state is rejected as already joined.)
\<close>

theorem C2_claimed_code_without_team:
  "map (\<lambda>x. (fst x, pin (snd x)))
       (teams (state (run sampleConfig (boot (envAt 0)) takeoverRequested))) =
     [(''x'', ''A''), (''r'', ''B'')]
   \<and> ''B'' \<in> claimedPins (state (run sampleConfig (boot (envAt 0)) takeoverRequested))
   \<and> map (\<lambda>x. (fst x, pin (snd x)))
       (teams (state (run sampleConfig (boot (envAt 0)) takeoverApproved))) = [(''r'', ''A'')]
   \<and> ''B'' \<in> claimedPins (state (run sampleConfig (boot (envAt 0)) takeoverApproved))
   \<and> filter (\<lambda>x. pin (snd x) = ''B'')
       (teams (state (run sampleConfig (boot (envAt 0)) takeoverApproved))) = []
   \<and> step sampleConfig (run sampleConfig (boot (envAt 0)) takeoverRequested)
        (envAt 4, JoinTeam ''r'' ''A'') =
       (run sampleConfig (boot (envAt 0)) takeoverRequested,
        [Emit ''r'' (MJoinError ''This device is already joined.'')])"
proof -
  have slip:
    "map (\<lambda>x. (fst x, pin (snd x)))
       (teams (state (run sampleConfig (boot (envAt 0)) takeoverRequested))) =
       [(''x'', ''A''), (''r'', ''B'')]
     \<and> ''B'' \<in> claimedPins (state (run sampleConfig (boot (envAt 0)) takeoverRequested))
     \<and> map (\<lambda>x. (fst x, pin (snd x)))
         (teams (state (run sampleConfig (boot (envAt 0)) takeoverApproved))) = [(''r'', ''A'')]
     \<and> ''B'' \<in> claimedPins (state (run sampleConfig (boot (envAt 0)) takeoverApproved))
     \<and> filter (\<lambda>x. pin (snd x) = ''B'')
         (teams (state (run sampleConfig (boot (envAt 0)) takeoverApproved))) = []"
    by code_simp
  have found: "find (\<lambda>t. infoPin t = trim ''A'') (TEAM_REGISTRY sampleConfig) \<noteq> None"
    by code_simp
  have joined: "map_of (teams (state (run sampleConfig (boot (envAt 0)) takeoverRequested))) ''r''
                  \<noteq> None"
    by code_simp
  from found joined
  have rejected: "step sampleConfig (run sampleConfig (boot (envAt 0)) takeoverRequested)
        (envAt 4, JoinTeam ''r'' ''A'') =
       (run sampleConfig (boot (envAt 0)) takeoverRequested,
        [Emit ''r'' (MJoinError ''This device is already joined.'')])"
    by (simp add: joinTeam_def Let_def split: option.split)
  from slip rejected show ?thesis by (intro conjI) simp_all
qed

subsection \<open>Store calls of a reveal\<close>

text \<open>
  C7 fails on the code. With automatic scoring, one call of \<^verbatim>\<open>revealAnswer\<close> issues the
  score sync and the answer log twice each, with the same rows; with manual scoring the
  same function issues each once.
\<close>

theorem C7_reveal_issues_two_pairs:
  "snd (revealAnswer (envAt 10000) (state (run sampleConfig (boot (envAt 0)) sampleLocked))) =
     [UpdateScores [(''A'', 17)],
      AppendAnswerRows (0, 0) (Some ((0, 0), 1, 2000)) 1
        [\<lparr>rowPin = ''A'', rowName = ''Alpha'', rowAnswer = Some 0, rowIsCorrect = True,
          rowTimeMs = Some 7000, rowPoints = 17, rowScore = 17\<rparr>],
      UpdateScores [(''A'', 17)],
      AppendAnswerRows (0, 0) (Some ((0, 0), 1, 2000)) 1
        [\<lparr>rowPin = ''A'', rowName = ''Alpha'', rowAnswer = Some 0, rowIsCorrect = True,
          rowTimeMs = Some 7000, rowPoints = 17, rowScore = 17\<rparr>]]
   \<and> snd (revealAnswer (envAt 10000)
            (state (run sampleConfig (boot (envAt 0)) sampleLockedManual))) =
     [AppendAnswerRows (0, 0) (Some ((0, 0), 1, 2000)) 1
        [\<lparr>rowPin = ''A'', rowName = ''Alpha'', rowAnswer = Some 0, rowIsCorrect = True,
          rowTimeMs = Some 7000, rowPoints = 0, rowScore = 0\<rparr>],
      UpdateScores [(''A'', 0)]]"
  by code_simp

end
